theory Spec2Isabelle
  imports
    Main
    "HOL-Library.Word"
    "HOL-Library.Multiset"
    "HOL-Library.Sublist"
    "HOL-Library.AList"
begin

section \<open>Fusion legality: \<^verbatim>\<open>paddle/cinn/operator_fusion/policy/relative_judge_policy.cc\<close>\<close>

subsection \<open>Data of the collaborators\<close>

text \<open>
  Operations (\<^verbatim>\<open>pir::Operation*\<close>) and values (\<^verbatim>\<open>pir::Value\<close>) are compared by
  identity only, so each is an identifier.
\<close>

type_synonym Operation = nat
type_synonym Value = nat

text \<open>
  Modelled from the spec: the type \<^verbatim>\<open>symbol::DimExpr\<close> is declared outside this file.
  The code asks of it only whether it is a statically known \<^verbatim>\<open>int64_t\<close>
  (\<^verbatim>\<open>isa<int64_t>\<close>), its structural equality and hash (the key of an
  \<^verbatim>\<open>unordered_map\<close>). Every alternative that is not an integer is a symbolic expression,
  kept by its text.
\<close>

datatype DimExpr = Int64 "64 word" | Symbolic string

text \<open>
  Modelled from the spec: \<^verbatim>\<open>DimUsage\<close> is (value, dimension index, usage index), with
  structural equality on the three fields. The members are \<^verbatim>\<open>v_\<close>, \<^verbatim>\<open>idx_\<close> and
  \<^verbatim>\<open>usage_idx_\<close> in the source.
\<close>

record DimUsage =
  dim_v :: Value
  dim_idx :: nat
  dim_usage_idx :: nat

text \<open>
  Modelled from the spec: a \<^verbatim>\<open>ShardableAxesSignature\<close> holds an ordered list of axis names
  for each input and each output of one operation.
\<close>

record ShardableAxes =
  axis_names :: "string list"

record ShardableAxesSignature =
  inputs :: "ShardableAxes list"
  outputs :: "ShardableAxes list"

text \<open>
  Modelled from the spec: the closed variant \<^verbatim>\<open>StmtPattern\<close> and its alternatives.
  A \<^verbatim>\<open>ReducePattern\<close> is one reduction operation with its producers; a
  \<^verbatim>\<open>ReduceTreePattern\<close> is a root \<^verbatim>\<open>ReducePattern\<close> with child trees.
\<close>

datatype ReducePattern =
  MakeReducePattern (ops: "Operation list") (GetReduceOp: Operation)

datatype ReduceTreePattern =
  MakeReduceTreePattern (childs: "ReduceTreePattern list") (GetRootPattern: ReducePattern)

datatype StmtPattern =
  holds_TrivialPattern: TrivialPattern "Operation list"
| holds_ReducePattern: ReducePattern ReducePattern
| holds_ReduceTreePattern: ReduceTreePattern ReduceTreePattern

text \<open>
  Modelled from the spec: \<^verbatim>\<open>FlattenReducePattern\<close> lists every \<^verbatim>\<open>ReducePattern\<close> of the
  tree in pre-order, and \<^verbatim>\<open>ops()\<close> of a tree lists all constituent operations.
\<close>

fun FlattenReducePattern :: "ReduceTreePattern \<Rightarrow> ReducePattern list" where
  "FlattenReducePattern (MakeReduceTreePattern cs root) =
     root # concat (map FlattenReducePattern cs)"

fun tree_ops :: "ReduceTreePattern \<Rightarrow> Operation list" where
  "tree_ops (MakeReduceTreePattern cs root) = ops root @ concat (map tree_ops cs)"

text \<open>
  Modelled from the spec: a \<^verbatim>\<open>PatternNode\<close> wraps one \<^verbatim>\<open>StmtPattern\<close> and exposes
  \<^verbatim>\<open>stmt_pattern()\<close> and \<^verbatim>\<open>sink_op()\<close>.
\<close>

record PatternNode =
  stmt_pattern :: StmtPattern
  sink_op :: Operation

text \<open>
  Everything the file reads from its collaborators and does not define: the operation
  graph (\<^verbatim>\<open>operand_source\<close>, \<^verbatim>\<open>results()\<close> and \<^verbatim>\<open>result(i)\<close> of an operation, the owners of
  the use edges of a value in iteration order, \<^verbatim>\<open>GetUsageIdx\<close>, the rank of a value), the signature table
  (\<^verbatim>\<open>axes_info_.GetSignature\<close>), the relation \<^verbatim>\<open>IsRelated\<close>, and the shape-analysis
  oracle (\<^verbatim>\<open>GetSymbolicDim\<close>, \<^verbatim>\<open>GetProductDimExpr\<close>, \<^verbatim>\<open>IsEqual\<close>). They are parameters:
  every theorem holds for all of them.
\<close>

record Env =
  operand_source :: "Operation \<Rightarrow> nat \<Rightarrow> Value"
  op_results :: "Operation \<Rightarrow> Value list"
  op_result :: "Operation \<Rightarrow> nat \<Rightarrow> Value"
  use_owners :: "Value \<Rightarrow> Operation list"
  GetUsageIdx :: "Value \<Rightarrow> Operation \<Rightarrow> nat"
  GetCompatibleRank :: "Value \<Rightarrow> nat"
  GetSignature :: "Operation \<Rightarrow> ShardableAxesSignature"
  IsRelated :: "DimUsage \<Rightarrow> DimUsage \<Rightarrow> bool"
  GetSymbolicDim :: "DimUsage \<Rightarrow> DimExpr"
  GetProductDimExpr :: "Value \<Rightarrow> nat list \<Rightarrow> DimExpr"
  IsEqual :: "DimExpr \<Rightarrow> DimExpr \<Rightarrow> bool"
  GetPatternInputValues :: "StmtPattern \<Rightarrow> Value list"

text \<open>
  The ways a call ends without a verdict: \<^verbatim>\<open>PADDLE_ENFORCE_EQ\<close> in \<^verbatim>\<open>FindUserOp\<close>
  (\<open>InvalidArgument\<close>, with the number of consumers found), \<^verbatim>\<open>PADDLE_THROW\<close> in
  \<^verbatim>\<open>GetFakeReduceIterIdx\<close> (\<open>IllegalCall\<close>), \<^verbatim>\<open>std::get\<close> on a variant holding another
  alternative (\<open>BadVariantAccess\<close>), and \<^verbatim>\<open>operator[]\<close> at index 0 of an empty vector
  (\<open>IndexOutOfBounds\<close>: the source has no defined behaviour there, so it is a separate
  outcome and no verdict is attributed to it).
\<close>

datatype error =
  InvalidArgument nat
| IllegalCall
| BadVariantAccess
| IndexOutOfBounds

text \<open>
  Modelled from the spec: \<^verbatim>\<open>GetValueUsage(v, usage_idx)\<close> is the dimension usages of the
  value at one consumption edge, one for each axis of its shape, in axis order.
\<close>

definition GetValueUsage :: "Env \<Rightarrow> Value \<Rightarrow> nat \<Rightarrow> DimUsage list" where
  "GetValueUsage env v usage_idx =
     map (\<lambda>i. \<lparr>dim_v = v, dim_idx = i, dim_usage_idx = usage_idx\<rparr>)
       [0..<GetCompatibleRank env v]"

text \<open>
  Modelled from the spec: \<^verbatim>\<open>SymbolicEqualTo\<close> holds when shape analysis proves the
  symbolic sizes of the two usages equal.
\<close>

definition SymbolicEqualTo :: "Env \<Rightarrow> DimUsage \<Rightarrow> DimUsage \<Rightarrow> bool" where
  "SymbolicEqualTo env a b = IsEqual env (GetSymbolicDim env a) (GetSymbolicDim env b)"

text \<open>
  Modelled from the spec: \<^verbatim>\<open>GatherVectorExcept(source, idx)\<close> removes the positions
  listed in \<open>idx\<close> from \<open>source\<close>, keeping the order of the rest.
\<close>

definition GatherVectorExcept :: "'a list \<Rightarrow> nat list \<Rightarrow> 'a list" where
  "GatherVectorExcept source idx =
     map snd (filter (\<lambda>(i, x). i \<notin> set idx) (enumerate 0 source))"

subsection \<open>The reduce-dimension splitter\<close>

text \<open>
  The loop of \<^verbatim>\<open>SplitReduceDims\<close> over \<open>input_names\<close>: the position \<open>idx\<close> and the two
  vectors are the loop state. \<open>idx\<close> is an \<^verbatim>\<open>int\<close> in the source; it counts the axes of one
  tensor and stays far below \<open>2^31\<close>.
\<close>

fun SplitReduceDims_loop ::
  "Value \<Rightarrow> nat \<Rightarrow> string set \<Rightarrow> string list \<Rightarrow> nat \<Rightarrow>
   DimUsage list \<times> DimUsage list \<Rightarrow> DimUsage list \<times> DimUsage list" where
  "SplitReduceDims_loop v usage_idx output_names_set [] idx (reduce_dims, non_reduce_dims) =
     (reduce_dims, non_reduce_dims)"
| "SplitReduceDims_loop v usage_idx output_names_set (inn # rest) idx
     (reduce_dims, non_reduce_dims) =
     (if inn \<notin> output_names_set
      then SplitReduceDims_loop v usage_idx output_names_set rest (idx + 1)
             (reduce_dims @ [\<lparr>dim_v = v, dim_idx = idx, dim_usage_idx = usage_idx\<rparr>],
              non_reduce_dims)
      else SplitReduceDims_loop v usage_idx output_names_set rest (idx + 1)
             (reduce_dims,
              non_reduce_dims @ [\<lparr>dim_v = v, dim_idx = idx, dim_usage_idx = usage_idx\<rparr>]))"

definition SplitReduceDims ::
  "Env \<Rightarrow> ShardableAxesSignature \<Rightarrow> Operation \<Rightarrow> error + (DimUsage list \<times> DimUsage list)"
  where
  "SplitReduceDims env signature op =
     (let v = operand_source env op 0 in
      case inputs signature of
        [] \<Rightarrow> Inl IndexOutOfBounds
      | in0 # _ \<Rightarrow>
          (case outputs signature of
             [] \<Rightarrow> Inl IndexOutOfBounds
           | out0 # _ \<Rightarrow>
               (let input_names = axis_names in0;
                    output_names_set = set (axis_names out0);
                    usage_idx = GetUsageIdx env v op
                in Inr (SplitReduceDims_loop v usage_idx output_names_set input_names 0
                          ([], [])))))"

subsection \<open>The relatedness partitioner\<close>

text \<open>
  The inner loop of \<^verbatim>\<open>SplitFirstIfRelatedBySecond\<close> sets the flag \<open>is_related\<close> and never
  clears it; the outer loop appends each target to one of the two vectors.
\<close>

fun is_related_loop :: "Env \<Rightarrow> DimUsage \<Rightarrow> DimUsage list \<Rightarrow> bool \<Rightarrow> bool" where
  "is_related_loop env target_dim [] is_related = is_related"
| "is_related_loop env target_dim (related_dim # rest) is_related =
     is_related_loop env target_dim rest
       (if IsRelated env related_dim target_dim then True else is_related)"

fun SplitFirstIfRelatedBySecond_loop ::
  "Env \<Rightarrow> DimUsage list \<Rightarrow> DimUsage list \<Rightarrow>
   DimUsage list \<times> DimUsage list \<Rightarrow> DimUsage list \<times> DimUsage list" where
  "SplitFirstIfRelatedBySecond_loop env related_with [] (related_dims, non_related_dims) =
     (related_dims, non_related_dims)"
| "SplitFirstIfRelatedBySecond_loop env related_with (target_dim # rest)
     (related_dims, non_related_dims) =
     (if is_related_loop env target_dim related_with False
      then SplitFirstIfRelatedBySecond_loop env related_with rest
             (related_dims @ [target_dim], non_related_dims)
      else SplitFirstIfRelatedBySecond_loop env related_with rest
             (related_dims, non_related_dims @ [target_dim]))"

definition SplitFirstIfRelatedBySecond ::
  "Env \<Rightarrow> DimUsage list \<Rightarrow> DimUsage list \<Rightarrow> DimUsage list \<times> DimUsage list" where
  "SplitFirstIfRelatedBySecond env targets related_with =
     SplitFirstIfRelatedBySecond_loop env related_with targets ([], [])"

subsection \<open>Shape-equivalence predicates\<close>

text \<open>
  \<^verbatim>\<open>GetDimInfo\<close> counts the occurrences of each symbolic size. The \<^verbatim>\<open>unordered_map\<close> is
  a list of (key, count) entries with distinct keys; the verdict of \<^verbatim>\<open>ElementwiseEqual\<close>
  does not depend on the order in which the map is iterated. The count is an \<^verbatim>\<open>int\<close> in
  the source and is bounded by the number of dimensions listed.
\<close>

fun GetDimInfo :: "Env \<Rightarrow> DimUsage list \<Rightarrow> (DimExpr \<times> int) list \<Rightarrow> (DimExpr \<times> int) list"
  where
  "GetDimInfo env [] res = res"
| "GetDimInfo env (dim # rest) res =
     (let val = GetSymbolicDim env dim in
      GetDimInfo env rest
        (case map_of res val of
           None \<Rightarrow> AList.update val 1 res
         | Some c \<Rightarrow> AList.update val (c + 1) res))"

definition ElementwiseEqual :: "Env \<Rightarrow> DimUsage list \<Rightarrow> DimUsage list \<Rightarrow> bool" where
  "ElementwiseEqual env first second =
     (let first_dims = GetDimInfo env first [];
          second_dims = GetDimInfo env second []
      in if length first_dims \<noteq> length second_dims then False
         else list_all
                (\<lambda>(dim_value, count).
                   case map_of second_dims dim_value of
                     None \<Rightarrow> False
                   | Some c \<Rightarrow> c = count)
                first_dims)"

text \<open>
  \<^verbatim>\<open>GetProductDimExprForValueDims\<close>: the constant 0 for no dimension, otherwise the
  oracle's product over the value of the first usage and the indices of all of them.
\<close>

definition GetProductDimExprForValueDims :: "Env \<Rightarrow> DimUsage list \<Rightarrow> DimExpr" where
  "GetProductDimExprForValueDims env dims =
     (case dims of
        [] \<Rightarrow> Int64 0
      | d0 # _ \<Rightarrow> GetProductDimExpr env (dim_v d0) (map dim_idx dims))"

text \<open>The comparison of two \<^verbatim>\<open>int64_t\<close> is signed.\<close>

definition IsProductSmallerOrEqual :: "Env \<Rightarrow> DimUsage list \<Rightarrow> DimUsage list \<Rightarrow> bool" where
  "IsProductSmallerOrEqual env first second =
     (if first = [] then True
      else
        (let first_product = GetProductDimExprForValueDims env first;
             second_product = GetProductDimExprForValueDims env second
         in case second_product of
              Int64 s \<Rightarrow>
                (case first_product of
                   Int64 f \<Rightarrow> sint f \<le> sint s
                 | Symbolic _ \<Rightarrow> IsEqual env first_product second_product)
            | Symbolic _ \<Rightarrow> IsEqual env first_product second_product))"

subsection \<open>Finding the consumer and the dependent candidate\<close>

text \<open>
  \<^verbatim>\<open>FindUserOp\<close> walks the use edges of the value, collects the owner of each edge that
  \<^verbatim>\<open>std::find\<close> locates in \<open>candidates\<close>, and enforces that exactly one was collected.
\<close>

fun FindUserOp_loop :: "Operation list \<Rightarrow> Operation list \<Rightarrow> Operation list \<Rightarrow> Operation list"
  where
  "FindUserOp_loop candidates [] results = results"
| "FindUserOp_loop candidates (user_op # rest) results =
     (case find (\<lambda>c. c = user_op) candidates of
        None \<Rightarrow> FindUserOp_loop candidates rest results
      | Some it \<Rightarrow> FindUserOp_loop candidates rest (results @ [it]))"

definition FindUserOp :: "Env \<Rightarrow> Operation list \<Rightarrow> Value \<Rightarrow> error + Operation" where
  "FindUserOp env candidates val =
     (let results = FindUserOp_loop candidates (use_owners env val) [] in
      case results of
        [r] \<Rightarrow> Inr r
      | _ \<Rightarrow> Inl (InvalidArgument (length results)))"

fun IsDownstreamStmtDependReduceOp_loop :: "Value list \<Rightarrow> Value list \<Rightarrow> bool" where
  "IsDownstreamStmtDependReduceOp_loop values [] = False"
| "IsDownstreamStmtDependReduceOp_loop values (val # rest) =
     (if val \<in> set values then True
      else IsDownstreamStmtDependReduceOp_loop values rest)"

definition IsDownstreamStmtDependReduceOp :: "Env \<Rightarrow> Operation \<Rightarrow> StmtPattern \<Rightarrow> bool" where
  "IsDownstreamStmtDependReduceOp env reduce downstream =
     IsDownstreamStmtDependReduceOp_loop (GetPatternInputValues env downstream)
       (op_results env reduce)"

fun GetDownstreamFromCandidate_loop ::
  "Env \<Rightarrow> Operation \<Rightarrow> ReducePattern list \<Rightarrow> ReducePattern option" where
  "GetDownstreamFromCandidate_loop env reduce [] = None"
| "GetDownstreamFromCandidate_loop env reduce (candidate # rest) =
     (if IsDownstreamStmtDependReduceOp env reduce (ReducePattern candidate)
      then Some candidate
      else GetDownstreamFromCandidate_loop env reduce rest)"

definition GetDownstreamFromCandidate ::
  "Env \<Rightarrow> ReducePattern \<Rightarrow> ReducePattern list \<Rightarrow> ReducePattern option" where
  "GetDownstreamFromCandidate env upstream candidates =
     GetDownstreamFromCandidate_loop env (GetReduceOp upstream) candidates"

subsection \<open>The fake-reduce indices\<close>

text \<open>
  The two nested loops of \<^verbatim>\<open>GetFakeReduceIterIdx\<close>. The state is the set \<open>visited_dims\<close>
  and the vector \<open>result\<close>; the inner loop stops (\<^verbatim>\<open>break\<close>) at the first dimension it
  records.
\<close>

fun GetFakeReduceIterIdx_inner ::
  "Env \<Rightarrow> DimUsage \<Rightarrow> DimUsage list \<Rightarrow> DimUsage set \<times> nat list \<Rightarrow> DimUsage set \<times> nat list"
  where
  "GetFakeReduceIterIdx_inner env reduce_dim [] (visited_dims, res) = (visited_dims, res)"
| "GetFakeReduceIterIdx_inner env reduce_dim (trivial_dim # rest) (visited_dims, res) =
     (if trivial_dim \<notin> visited_dims \<and> SymbolicEqualTo env trivial_dim reduce_dim
      then (insert trivial_dim visited_dims, res @ [dim_idx trivial_dim])
      else GetFakeReduceIterIdx_inner env reduce_dim rest (visited_dims, res))"

fun GetFakeReduceIterIdx_outer ::
  "Env \<Rightarrow> DimUsage list \<Rightarrow> DimUsage list \<Rightarrow> DimUsage set \<times> nat list \<Rightarrow>
   DimUsage set \<times> nat list" where
  "GetFakeReduceIterIdx_outer env trivial_reorder_dims [] st = st"
| "GetFakeReduceIterIdx_outer env trivial_reorder_dims (reduce_dim # rest) st =
     GetFakeReduceIterIdx_outer env trivial_reorder_dims rest
       (GetFakeReduceIterIdx_inner env reduce_dim trivial_reorder_dims st)"

definition GetFakeReduceIterIdx :: "Env \<Rightarrow> PatternNode \<Rightarrow> PatternNode \<Rightarrow> error + nat list"
  where
  "GetFakeReduceIterIdx env upstream downstream =
     (if \<not> holds_ReduceTreePattern (stmt_pattern upstream) \<and>
         \<not> holds_TrivialPattern (stmt_pattern downstream)
      then Inl IllegalCall
      else
        (case SplitReduceDims env (GetSignature env (sink_op upstream)) (sink_op upstream) of
           Inl e \<Rightarrow> Inl e
         | Inr (upstream_reduce_dims, upstream_non_reduce_dims) \<Rightarrow>
             (let trivial_reorder_dims =
                    snd (SplitFirstIfRelatedBySecond env
                           (GetValueUsage env (op_result env (sink_op downstream) 0) 0)
                           upstream_non_reduce_dims)
              in Inr (snd (GetFakeReduceIterIdx_outer env trivial_reorder_dims
                             upstream_reduce_dims ({}, []))))))"

subsection \<open>The merge rules and the dispatcher\<close>

definition ReduceTreeGrownCanMerge :: "Env \<Rightarrow> PatternNode \<Rightarrow> PatternNode \<Rightarrow> error + bool"
  where
  "ReduceTreeGrownCanMerge env upstream downstream =
     (case stmt_pattern upstream of
        ReduceTreePattern upstream_tree \<Rightarrow>
          (case stmt_pattern downstream of
             ReduceTreePattern downstream_tree \<Rightarrow>
               (case GetDownstreamFromCandidate env (GetRootPattern upstream_tree)
                       (FlattenReducePattern downstream_tree) of
                  None \<Rightarrow> Inr False
                | Some maybe_downstream_op \<Rightarrow>
                    (let reduce_out_value =
                           op_result env (GetReduceOp (GetRootPattern upstream_tree)) 0
                     in case FindUserOp env (tree_ops downstream_tree) reduce_out_value of
                          Inl e \<Rightarrow> Inl e
                        | Inr downstream_connect_op \<Rightarrow>
                            (let downstream_reduce_op = GetReduceOp maybe_downstream_op in
                             case SplitReduceDims env (GetSignature env downstream_reduce_op)
                                    downstream_reduce_op of
                               Inl e \<Rightarrow> Inl e
                             | Inr (downstream_reduce_dims, downstream_non_reduce_dims) \<Rightarrow>
                                 (let upstream_output_dims =
                                        GetValueUsage env reduce_out_value
                                          (GetUsageIdx env reduce_out_value
                                             downstream_connect_op);
                                      related =
                                        fst (SplitFirstIfRelatedBySecond env
                                               downstream_reduce_dims upstream_output_dims)
                                  in Inr (length related = 0)))))
           | _ \<Rightarrow> Inl BadVariantAccess)
      | _ \<Rightarrow> Inl BadVariantAccess)"

definition ReducePlusTrivialCanMerge :: "Env \<Rightarrow> PatternNode \<Rightarrow> PatternNode \<Rightarrow> error + bool"
  where
  "ReducePlusTrivialCanMerge env upstream downstream =
     (case SplitReduceDims env (GetSignature env (sink_op upstream)) (sink_op upstream) of
        Inl e \<Rightarrow> Inl e
      | Inr (upstream_reduce_dims, upstream_non_reduce_dims) \<Rightarrow>
          (let non_related_dims =
                 snd (SplitFirstIfRelatedBySecond env
                        (GetValueUsage env (op_result env (sink_op downstream) 0) 0)
                        upstream_non_reduce_dims)
           in case GetFakeReduceIterIdx env upstream downstream of
                Inl e \<Rightarrow> Inl e
              | Inr fakes \<Rightarrow>
                  (let downstream_free_dims =
                         GatherVectorExcept
                           (GetValueUsage env (op_result env (sink_op downstream) 0) 0) fakes
                   in Inr (ElementwiseEqual env non_related_dims upstream_reduce_dims \<or>
                           IsProductSmallerOrEqual env downstream_free_dims
                             upstream_non_reduce_dims))))"

definition CanFuse :: "Env \<Rightarrow> PatternNode \<Rightarrow> PatternNode \<Rightarrow> error + bool" where
  "CanFuse env upstream downstream =
     (if holds_ReduceTreePattern (stmt_pattern upstream) \<and>
         holds_TrivialPattern (stmt_pattern downstream)
      then ReducePlusTrivialCanMerge env upstream downstream
      else if holds_ReduceTreePattern (stmt_pattern upstream) \<and>
              holds_ReduceTreePattern (stmt_pattern downstream)
      then ReduceTreeGrownCanMerge env upstream downstream
      else Inr True)"

subsection \<open>A concrete graph for evaluating the definitions\<close>

text \<open>
  A small program with static and symbolic shapes. Values: \<open>0\<close> is \<open>a : [4, 8]\<close>;
  \<open>1\<close> is \<open>x = reduce(a)\<close> over axis 1, of shape \<open>[4]\<close> (operation 10); \<open>2\<close> is
  \<open>expand(x) : [4, 2]\<close> (operation 11); \<open>3\<close> is its reduction over axis 1 (operation 12);
  \<open>4\<close> is the reduction of \<open>x\<close> over axis 0 (operation 13); \<open>5\<close> is
  \<open>a - expand(x) : [4, 8]\<close> (operation 14); \<open>6\<close> is a trivial consumer of \<open>x\<close> of shape
  \<open>[S1, 8]\<close> (operation 15); \<open>7\<close> is a second reduction of \<open>a\<close> (operation 16); \<open>8\<close> is
  \<open>x * x\<close> (operation 17) and \<open>9\<close> its reduction over axis 0 (operation 18).
\<close>

definition ex_operands :: "Operation \<Rightarrow> Value list" where
  "ex_operands op =
     (if op = 10 then [0] else if op = 11 then [1] else if op = 12 then [2]
      else if op = 13 then [1] else if op = 14 then [0, 1] else if op = 15 then [1]
      else if op = 16 then [0] else if op = 17 then [1, 1] else if op = 18 then [8]
      else [])"

definition ex_results :: "Operation \<Rightarrow> Value list" where
  "ex_results op =
     (if op = 10 then [1] else if op = 11 then [2] else if op = 12 then [3]
      else if op = 13 then [4] else if op = 14 then [5] else if op = 15 then [6]
      else if op = 16 then [7] else if op = 17 then [8] else if op = 18 then [9]
      else [])"

definition ex_shape :: "Value \<Rightarrow> DimExpr list" where
  "ex_shape v =
     (if v = 0 then [Int64 4, Int64 8] else if v = 1 then [Int64 4]
      else if v = 2 then [Int64 4, Int64 2] else if v = 3 then [Int64 4]
      else if v = 5 then [Int64 4, Int64 8]
      else if v = 6 then [Symbolic ''S1'', Int64 8] else if v = 7 then [Int64 4]
      else if v = 8 then [Int64 4]
      else [])"

definition ex_use_owners :: "Value \<Rightarrow> Operation list" where
  "ex_use_owners v =
     concat (map (\<lambda>op. map (\<lambda>_. op) (filter (\<lambda>w. w = v) (ex_operands op)))
               [10, 11, 12, 13, 14, 15, 16, 17, 18])"

definition ex_signature :: "Operation \<Rightarrow> ShardableAxesSignature" where
  "ex_signature op =
     (if op = 10 \<or> op = 16 then
        \<lparr>inputs = [\<lparr>axis_names = [''i'', ''j'']\<rparr>], outputs = [\<lparr>axis_names = [''i'']\<rparr>]\<rparr>
      else if op = 12 then
        \<lparr>inputs = [\<lparr>axis_names = [''i'', ''k'']\<rparr>], outputs = [\<lparr>axis_names = [''i'']\<rparr>]\<rparr>
      else if op = 13 \<or> op = 18 then
        \<lparr>inputs = [\<lparr>axis_names = [''i'']\<rparr>], outputs = [\<lparr>axis_names = []\<rparr>]\<rparr>
      else \<lparr>inputs = [], outputs = []\<rparr>)"

text \<open>
  One use edge for each operand slot that reads the value, so \<open>x * x\<close> owns two edges of
  \<open>x\<close>. Below, the pairs of axes of the example that \<^verbatim>\<open>IsRelated\<close> relates besides each axis
  with itself.
\<close>

definition ex_related :: "(Value \<times> nat \<times> Value \<times> nat) list" where
  "ex_related =
     [(0, 0, 1, 0), (1, 0, 2, 0), (0, 0, 2, 0), (2, 0, 3, 0), (0, 0, 5, 0), (0, 1, 5, 1),
      (1, 0, 5, 0), (0, 0, 6, 0), (1, 0, 6, 0), (0, 0, 7, 0), (1, 0, 8, 0), (0, 0, 8, 0)]"

fun ex_mul :: "DimExpr \<Rightarrow> DimExpr \<Rightarrow> DimExpr" where
  "ex_mul (Int64 a) (Int64 b) = Int64 (a * b)"
| "ex_mul (Int64 a) (Symbolic t) = (if a = 1 then Symbolic t else Symbolic (''k*'' @ t))"
| "ex_mul (Symbolic s) (Int64 b) = (if b = 1 then Symbolic s else Symbolic (s @ ''*k''))"
| "ex_mul (Symbolic s) (Symbolic t) = Symbolic (s @ ''*'' @ t)"

fun ex_pattern_ops :: "StmtPattern \<Rightarrow> Operation list" where
  "ex_pattern_ops (TrivialPattern os) = os"
| "ex_pattern_ops (ReducePattern p) = ops p"
| "ex_pattern_ops (ReduceTreePattern t) = tree_ops t"

definition ex_env :: Env where
  "ex_env =
     \<lparr>operand_source = (\<lambda>op i. ex_operands op ! i),
      op_results = ex_results,
      op_result = (\<lambda>op i. ex_results op ! i),
      use_owners = ex_use_owners,
      GetUsageIdx = (\<lambda>v op. length (takeWhile (\<lambda>u. u \<noteq> op) (ex_use_owners v))),
      GetCompatibleRank = (\<lambda>v. length (ex_shape v)),
      GetSignature = ex_signature,
      IsRelated = (\<lambda>a b. a = b \<or>
                    (dim_v a, dim_idx a, dim_v b, dim_idx b) \<in> set ex_related),
      GetSymbolicDim = (\<lambda>d. ex_shape (dim_v d) ! dim_idx d),
      GetProductDimExpr = (\<lambda>v idxs. foldr ex_mul (map (\<lambda>i. ex_shape v ! i) idxs) (Int64 1)),
      IsEqual = (\<lambda>a b. a = b),
      GetPatternInputValues =
        (\<lambda>p. filter (\<lambda>v. v \<notin> set (concat (map ex_results (ex_pattern_ops p))))
               (concat (map ex_operands (ex_pattern_ops p))))\<rparr>"

definition ex_upstream :: PatternNode where
  "ex_upstream =
     \<lparr>stmt_pattern = ReduceTreePattern (MakeReduceTreePattern [] (MakeReducePattern [10] 10)),
      sink_op = 10\<rparr>"

definition ex_grow :: PatternNode where
  "ex_grow =
     \<lparr>stmt_pattern =
        ReduceTreePattern (MakeReduceTreePattern [] (MakeReducePattern [11, 12] 12)),
      sink_op = 12\<rparr>"

definition ex_rereduce :: PatternNode where
  "ex_rereduce =
     \<lparr>stmt_pattern = ReduceTreePattern (MakeReduceTreePattern [] (MakeReducePattern [13] 13)),
      sink_op = 13\<rparr>"

definition ex_sibling :: PatternNode where
  "ex_sibling =
     \<lparr>stmt_pattern = ReduceTreePattern (MakeReduceTreePattern [] (MakeReducePattern [16] 16)),
      sink_op = 16\<rparr>"

definition ex_square :: PatternNode where
  "ex_square =
     \<lparr>stmt_pattern =
        ReduceTreePattern (MakeReduceTreePattern [] (MakeReducePattern [17, 18] 18)),
      sink_op = 18\<rparr>"

definition ex_trivial :: PatternNode where
  "ex_trivial = \<lparr>stmt_pattern = TrivialPattern [14], sink_op = 14\<rparr>"

definition ex_trivial_dyn :: PatternNode where
  "ex_trivial_dyn = \<lparr>stmt_pattern = TrivialPattern [15], sink_op = 15\<rparr>"

definition ex_reduce :: PatternNode where
  "ex_reduce = \<lparr>stmt_pattern = ReducePattern (MakeReducePattern [13] 13), sink_op = 13\<rparr>"

section \<open>Properties\<close>

subsection \<open>The loops in closed form\<close>

lemma SplitReduceDims_loop_eq:
  "SplitReduceDims_loop v u S names idx (r, n) =
     (r @ map (\<lambda>(i, nm). \<lparr>dim_v = v, dim_idx = i, dim_usage_idx = u\<rparr>)
            (filter (\<lambda>(i, nm). nm \<notin> S) (enumerate idx names)),
      n @ map (\<lambda>(i, nm). \<lparr>dim_v = v, dim_idx = i, dim_usage_idx = u\<rparr>)
            (filter (\<lambda>(i, nm). nm \<in> S) (enumerate idx names)))"
  by (induction names arbitrary: idx r n) simp_all

lemma is_related_loop_eq:
  "is_related_loop env t rs b = (b \<or> (\<exists>r \<in> set rs. IsRelated env r t))"
  by (induction rs arbitrary: b) auto

lemma SplitFirstIfRelatedBySecond_loop_eq:
  "SplitFirstIfRelatedBySecond_loop env rw ts (r, n) =
     (r @ filter (\<lambda>t. \<exists>d \<in> set rw. IsRelated env d t) ts,
      n @ filter (\<lambda>t. \<not> (\<exists>d \<in> set rw. IsRelated env d t)) ts)"
  by (induction ts arbitrary: r n) (simp_all add: is_related_loop_eq)

lemma SplitFirstIfRelatedBySecond_eq:
  "SplitFirstIfRelatedBySecond env ts rw =
     (filter (\<lambda>t. \<exists>d \<in> set rw. IsRelated env d t) ts,
      filter (\<lambda>t. \<not> (\<exists>d \<in> set rw. IsRelated env d t)) ts)"
  by (simp add: SplitFirstIfRelatedBySecond_def SplitFirstIfRelatedBySecond_loop_eq)

lemma SplitReduceDims_eq:
  assumes "inputs sg = in0 # ins" and "outputs sg = out0 # outs"
  shows "SplitReduceDims env sg op =
     Inr (map (\<lambda>(i, nm). \<lparr>dim_v = operand_source env op 0, dim_idx = i,
                 dim_usage_idx = GetUsageIdx env (operand_source env op 0) op\<rparr>)
            (filter (\<lambda>(i, nm). nm \<notin> set (axis_names out0)) (enumerate 0 (axis_names in0))),
          map (\<lambda>(i, nm). \<lparr>dim_v = operand_source env op 0, dim_idx = i,
                 dim_usage_idx = GetUsageIdx env (operand_source env op 0) op\<rparr>)
            (filter (\<lambda>(i, nm). nm \<in> set (axis_names out0)) (enumerate 0 (axis_names in0))))"
  using assms by (simp add: SplitReduceDims_def SplitReduceDims_loop_eq Let_def)

lemma SplitReduceDims_Inr_iff:
  "(\<exists>p. SplitReduceDims env sg op = Inr p) \<longleftrightarrow> inputs sg \<noteq> [] \<and> outputs sg \<noteq> []"
  by (auto simp: SplitReduceDims_def Let_def split: list.splits)

lemma partition_props:
  assumes "distinct (map f xs)"
  shows "set (map f (filter P xs)) \<inter> set (map f (filter (\<lambda>x. \<not> P x) xs)) = {}"
    and "mset (map f (filter P xs)) + mset (map f (filter (\<lambda>x. \<not> P x) xs)) = mset (map f xs)"
    and "subseq (map f (filter P xs)) (map f xs)"
    and "subseq (map f (filter (\<lambda>x. \<not> P x) xs)) (map f xs)"
proof -
  show "set (map f (filter P xs)) \<inter> set (map f (filter (\<lambda>x. \<not> P x) xs)) = {}"
    using assms by (auto simp: distinct_map inj_on_def)
  show "mset (map f (filter P xs)) + mset (map f (filter (\<lambda>x. \<not> P x) xs)) = mset (map f xs)"
    by (induction xs) simp_all
  show "subseq (map f (filter P xs)) (map f xs)"
    by (simp add: subseq_map)
  show "subseq (map f (filter (\<lambda>x. \<not> P x) xs)) (map f xs)"
    by (simp add: subseq_map)
qed

subsection \<open>\<^verbatim>\<open>ElementwiseEqual\<close> compares multisets of symbolic sizes\<close>

lemma GetDimInfo_distinct:
  "distinct (map fst res) \<Longrightarrow> distinct (map fst (GetDimInfo env dims res))"
  by (induction dims arbitrary: res) (simp_all add: Let_def distinct_update split: option.splits)

lemma GetDimInfo_map_of:
  "map_of (GetDimInfo env dims res) k =
     (case map_of res k of
        None \<Rightarrow> (if k \<in> GetSymbolicDim env ` set dims
                 then Some (int (count (mset (map (GetSymbolicDim env) dims)) k)) else None)
      | Some c0 \<Rightarrow> Some (c0 + int (count (mset (map (GetSymbolicDim env) dims)) k)))"
proof (induction dims arbitrary: res)
  case Nil
  then show ?case by (simp split: option.splits)
next
  case (Cons d dims)
  show ?case
    by (cases "map_of res (GetSymbolicDim env d)")
       (auto simp: Cons.IH Let_def update_conv' count_eq_zero_iff split: option.splits)
qed

lemma GetDimInfo_lookup:
  "map_of (GetDimInfo env dims []) k =
     (if k \<in># mset (map (GetSymbolicDim env) dims)
      then Some (int (count (mset (map (GetSymbolicDim env) dims)) k)) else None)"
  by (simp add: GetDimInfo_map_of)

lemma count_table_eq_iff:
  "(\<forall>k. (if k \<in># A then Some (int (count A k)) else None) =
        (if k \<in># B then Some (int (count B k)) else None)) \<longleftrightarrow> A = B"
proof
  assume h: "\<forall>k. (if k \<in># A then Some (int (count A k)) else None) =
        (if k \<in># B then Some (int (count B k)) else None)"
  show "A = B"
  proof (rule multiset_eqI)
    fix k
    show "count A k = count B k"
    proof (cases "k \<in># A")
      case True
      with h have "k \<in># B" by (metis option.distinct(1))
      with h True show ?thesis by (metis option.inject of_nat_eq_iff)
    next
      case False
      with h have "k \<notin># B" by (metis option.distinct(1))
      with False show ?thesis by (simp add: not_in_iff)
    qed
  qed
qed simp

lemma GetDimInfo_length:
  "length (GetDimInfo env dims []) = card (dom (map_of (GetDimInfo env dims [])))"
proof -
  have "distinct (map fst (GetDimInfo env dims []))"
    by (rule GetDimInfo_distinct) simp
  then have "card (set (map fst (GetDimInfo env dims []))) = length (map fst (GetDimInfo env dims []))"
    by (rule distinct_card)
  then show ?thesis by (simp add: dom_map_of_conv_image_fst)
qed

lemma GetDimInfo_all:
  "list_all (\<lambda>(dim_value, count). case map_of sd dim_value of None \<Rightarrow> False | Some c \<Rightarrow> c = count)
     (GetDimInfo env dims []) \<longleftrightarrow> map_of (GetDimInfo env dims []) \<subseteq>\<^sub>m map_of sd"
proof -
  let ?fd = "GetDimInfo env dims []"
  have d: "distinct (map fst ?fd)"
    by (rule GetDimInfo_distinct) simp
  have "list_all (\<lambda>(dim_value, count). case map_of sd dim_value of None \<Rightarrow> False | Some c \<Rightarrow> c = count) ?fd
          \<longleftrightarrow> (\<forall>k c. (k, c) \<in> set ?fd \<longrightarrow> map_of sd k = Some c)"
    by (auto simp: list_all_iff split: option.splits)
  also have "\<dots> \<longleftrightarrow> (\<forall>k c. map_of ?fd k = Some c \<longrightarrow> map_of sd k = Some c)"
    using d by simp
  also have "\<dots> \<longleftrightarrow> map_of ?fd \<subseteq>\<^sub>m map_of sd"
    by (auto simp: map_le_def dom_def)
  finally show ?thesis .
qed

lemma ElementwiseEqual_maps:
  "ElementwiseEqual env a b \<longleftrightarrow>
     map_of (GetDimInfo env a []) = map_of (GetDimInfo env b [])"
proof -
  let ?ma = "map_of (GetDimInfo env a [])" and ?mb = "map_of (GetDimInfo env b [])"
  have "ElementwiseEqual env a b \<longleftrightarrow> card (dom ?ma) = card (dom ?mb) \<and> ?ma \<subseteq>\<^sub>m ?mb"
    by (simp add: ElementwiseEqual_def Let_def GetDimInfo_all GetDimInfo_length)
  also have "\<dots> \<longleftrightarrow> ?ma = ?mb"
  proof
    assume h: "card (dom ?ma) = card (dom ?mb) \<and> ?ma \<subseteq>\<^sub>m ?mb"
    then have "dom ?ma \<subseteq> dom ?mb" by (simp add: map_le_implies_dom_le)
    moreover have "finite (dom ?mb)" by (rule finite_dom_map_of)
    ultimately have "dom ?ma = dom ?mb" using h by (simp add: card_subset_eq)
    with h show "?ma = ?mb" by (metis map_le_antisym map_le_def)
  qed simp
  finally show ?thesis .
qed

lemma ElementwiseEqual_mset:
  "ElementwiseEqual env a b \<longleftrightarrow>
     mset (map (GetSymbolicDim env) a) = mset (map (GetSymbolicDim env) b)"
  unfolding ElementwiseEqual_maps fun_eq_iff GetDimInfo_lookup
  by (rule count_table_eq_iff)

subsection \<open>Further closed forms and loop invariants\<close>

lemma enumerate_index:
  "enumerate 0 xs = map (\<lambda>i. (i, xs ! i)) [0..<length xs]"
  by (rule nth_equalityI) (simp_all add: nth_enumerate_eq)

lemma SplitReduceDims_index:
  assumes "inputs sg = in0 # ins" and "outputs sg = out0 # outs"
  shows "SplitReduceDims env sg op =
     Inr (map (\<lambda>i. \<lparr>dim_v = operand_source env op 0, dim_idx = i,
                 dim_usage_idx = GetUsageIdx env (operand_source env op 0) op\<rparr>)
            (filter (\<lambda>i. axis_names in0 ! i \<notin> set (axis_names out0))
               [0..<length (axis_names in0)]),
          map (\<lambda>i. \<lparr>dim_v = operand_source env op 0, dim_idx = i,
                 dim_usage_idx = GetUsageIdx env (operand_source env op 0) op\<rparr>)
            (filter (\<lambda>i. \<not> axis_names in0 ! i \<notin> set (axis_names out0))
               [0..<length (axis_names in0)]))"
  by (simp add: SplitReduceDims_eq [OF assms] enumerate_index filter_map comp_def)

lemma DimUsage_index_distinct:
  "distinct (map (\<lambda>i. \<lparr>dim_v = v, dim_idx = i, dim_usage_idx = u\<rparr>) [0..<n])"
  by (simp add: distinct_map inj_on_def)

lemma SplitReduceDims_error:
  "SplitReduceDims env sg op = Inl e \<Longrightarrow> e = IndexOutOfBounds"
  by (auto simp: SplitReduceDims_def Let_def split: list.splits)

lemma find_same:
  "find (\<lambda>c. c = u) cs = (if u \<in> set cs then Some u else None)"
  by (induction cs) auto

lemma FindUserOp_loop_eq:
  "FindUserOp_loop candidates us acc = acc @ filter (\<lambda>u. u \<in> set candidates) us"
  by (induction us arbitrary: acc) (simp_all add: find_same)

lemma FindUserOp_eq:
  "FindUserOp env candidates val =
     (case filter (\<lambda>u. u \<in> set candidates) (use_owners env val) of
        [r] \<Rightarrow> Inr r
      | rs \<Rightarrow> Inl (InvalidArgument (length rs)))"
  by (simp add: FindUserOp_def FindUserOp_loop_eq split: list.splits)

lemma IsDownstreamStmtDependReduceOp_loop_eq:
  "IsDownstreamStmtDependReduceOp_loop values vs \<longleftrightarrow> (\<exists>val \<in> set vs. val \<in> set values)"
  by (induction vs) auto

lemma IsDownstreamStmtDependReduceOp_eq:
  "IsDownstreamStmtDependReduceOp env reduce downstream \<longleftrightarrow>
     (\<exists>val \<in> set (op_results env reduce). val \<in> set (GetPatternInputValues env downstream))"
  by (simp add: IsDownstreamStmtDependReduceOp_def IsDownstreamStmtDependReduceOp_loop_eq)

lemma GetDownstreamFromCandidate_loop_eq:
  "GetDownstreamFromCandidate_loop env reduce cs =
     find (\<lambda>c. IsDownstreamStmtDependReduceOp env reduce (ReducePattern c)) cs"
  by (induction cs) simp_all

lemma GetDownstreamFromCandidate_eq:
  "GetDownstreamFromCandidate env upstream cs =
     find (\<lambda>c. \<exists>val \<in> set (op_results env (GetReduceOp upstream)).
                 val \<in> set (GetPatternInputValues env (ReducePattern c))) cs"
  by (simp add: GetDownstreamFromCandidate_def GetDownstreamFromCandidate_loop_eq
      IsDownstreamStmtDependReduceOp_eq)

lemma related_empty_iff:
  "fst (SplitFirstIfRelatedBySecond env ts rw) = [] \<longleftrightarrow>
     (\<forall>d \<in> set ts. \<forall>u \<in> set rw. \<not> IsRelated env u d)"
  by (auto simp: SplitFirstIfRelatedBySecond_eq filter_empty_conv)

lemma GetFakeReduceIterIdx_inner_find:
  "GetFakeReduceIterIdx_inner env rd ts (vis, res) =
     (case find (\<lambda>t. t \<notin> vis \<and> SymbolicEqualTo env t rd) ts of
        None \<Rightarrow> (vis, res)
      | Some t \<Rightarrow> (insert t vis, res @ [dim_idx t]))"
  by (induction ts) simp_all

lemma GetFakeReduceIterIdx_inner_skip:
  "\<forall>t \<in> set ts. t \<in> vis \<or> \<not> SymbolicEqualTo env t rd \<Longrightarrow>
   GetFakeReduceIterIdx_inner env rd ts (vis, res) = (vis, res)"
  by (induction ts) auto

lemma GetFakeReduceIterIdx_inner_inv:
  assumes "res = map dim_idx matched" and "distinct matched" and "set matched = vis"
    and "vis \<subseteq> set ts"
    and "\<forall>t \<in> set matched. \<exists>r \<in> R. SymbolicEqualTo env t r"
    and "rd \<in> R"
  shows "\<exists>matched'. GetFakeReduceIterIdx_inner env rd ts (vis, res) =
            (set matched', map dim_idx matched') \<and>
          distinct matched' \<and> set matched' \<subseteq> set ts \<and>
          length matched' \<le> Suc (length matched) \<and>
          (\<forall>t \<in> set matched'. \<exists>r \<in> R. SymbolicEqualTo env t r)"
proof (cases "find (\<lambda>t. t \<notin> vis \<and> SymbolicEqualTo env t rd) ts")
  case None
  with assms show ?thesis
    by (intro exI [of _ matched]) (simp add: GetFakeReduceIterIdx_inner_find)
next
  case (Some t)
  then have t: "t \<in> set ts" "t \<notin> vis" "SymbolicEqualTo env t rd"
    by (auto simp: find_Some_iff)
  with assms Some show ?thesis
    by (intro exI [of _ "matched @ [t]"]) (auto simp: GetFakeReduceIterIdx_inner_find)
qed

lemma GetFakeReduceIterIdx_outer_inv:
  assumes "distinct matched" and "set matched \<subseteq> set ts"
    and "\<forall>t \<in> set matched. \<exists>r \<in> R. SymbolicEqualTo env t r"
    and "set rds \<subseteq> R"
  shows "\<exists>matched'. GetFakeReduceIterIdx_outer env ts rds (set matched, map dim_idx matched) =
            (set matched', map dim_idx matched') \<and>
          distinct matched' \<and> set matched' \<subseteq> set ts \<and>
          length matched' \<le> length matched + length rds \<and>
          (\<forall>t \<in> set matched'. \<exists>r \<in> R. SymbolicEqualTo env t r)"
  using assms
proof (induction rds arbitrary: matched)
  case Nil
  then show ?case by (intro exI [of _ matched]) simp
next
  case (Cons rd rds)
  from Cons.prems obtain m1 where m1:
    "GetFakeReduceIterIdx_inner env rd ts (set matched, map dim_idx matched) =
       (set m1, map dim_idx m1)"
    "distinct m1" "set m1 \<subseteq> set ts" "length m1 \<le> Suc (length matched)"
    "\<forall>t \<in> set m1. \<exists>r \<in> R. SymbolicEqualTo env t r"
    using GetFakeReduceIterIdx_inner_inv [of "map dim_idx matched" matched "set matched" ts R env rd]
    by auto
  from Cons.prems have "set rds \<subseteq> R" by simp
  from Cons.IH [OF m1(2) m1(3) m1(5) this] obtain m2 where m2:
    "GetFakeReduceIterIdx_outer env ts rds (set m1, map dim_idx m1) = (set m2, map dim_idx m2)"
    "distinct m2" "set m2 \<subseteq> set ts" "length m2 \<le> length m1 + length rds"
    "\<forall>t \<in> set m2. \<exists>r \<in> R. SymbolicEqualTo env t r"
    by auto
  from m1 m2 show ?case
    by (intro exI [of _ m2]) simp
qed

lemma GetValueUsage_inj:
  "inj_on dim_idx (set (GetValueUsage env v u))"
  by (auto simp: GetValueUsage_def inj_on_def)

section \<open>The claims\<close>

text \<open>
  Claim C1. Let both patterns be \<^verbatim>\<open>ReduceTreePattern\<close>s. If no \<^verbatim>\<open>ReducePattern\<close> of the
  downstream tree's flattened list has an input value among the results of the upstream
  root's reduce operation, \<^verbatim>\<open>ReduceTreeGrownCanMerge\<close> returns false. Otherwise let
  \<open>matched\<close> be the first one that has. The call returns true exactly when \<^verbatim>\<open>FindUserOp\<close>
  finds the consuming operation \<open>connect\<close> in the downstream tree, the signature of the
  matched reduction splits into reduced and preserved dimensions, and no reduced dimension
  \<open>d\<close> is related (\<^verbatim>\<open>IsRelated(u, d)\<close>) to a dimension usage \<open>u\<close> of the upstream root's
  output at the edge into \<open>connect\<close>. With the consumer and the split at hand the verdict is
  that condition, true or false; when \<^verbatim>\<open>FindUserOp\<close> fails, its fatal error is the outcome
  and there is no verdict.
\<close>

theorem ReduceTreeGrownCanMerge_verdict:
  assumes "stmt_pattern upstream = ReduceTreePattern upstream_tree"
    and "stmt_pattern downstream = ReduceTreePattern downstream_tree"
  shows
    "((\<forall>c \<in> set (FlattenReducePattern downstream_tree).
        \<forall>val \<in> set (op_results env (GetReduceOp (GetRootPattern upstream_tree))).
          val \<notin> set (GetPatternInputValues env (ReducePattern c))) \<longrightarrow>
      ReduceTreeGrownCanMerge env upstream downstream = Inr False) \<and>
     (\<forall>matched.
        find (\<lambda>c. \<exists>val \<in> set (op_results env (GetReduceOp (GetRootPattern upstream_tree))).
                    val \<in> set (GetPatternInputValues env (ReducePattern c)))
          (FlattenReducePattern downstream_tree) = Some matched \<longrightarrow>
        (ReduceTreeGrownCanMerge env upstream downstream = Inr True \<longleftrightarrow>
           (\<exists>connect reduce_dims non_reduce_dims.
              FindUserOp env (tree_ops downstream_tree)
                (op_result env (GetReduceOp (GetRootPattern upstream_tree)) 0) = Inr connect \<and>
              SplitReduceDims env (GetSignature env (GetReduceOp matched)) (GetReduceOp matched) =
                Inr (reduce_dims, non_reduce_dims) \<and>
              (\<forall>d \<in> set reduce_dims.
                 \<forall>u \<in> set (GetValueUsage env
                              (op_result env (GetReduceOp (GetRootPattern upstream_tree)) 0)
                              (GetUsageIdx env
                                 (op_result env (GetReduceOp (GetRootPattern upstream_tree)) 0)
                                 connect)).
                   \<not> IsRelated env u d))) \<and>
        (\<forall>connect reduce_dims non_reduce_dims.
           FindUserOp env (tree_ops downstream_tree)
             (op_result env (GetReduceOp (GetRootPattern upstream_tree)) 0) = Inr connect \<and>
           SplitReduceDims env (GetSignature env (GetReduceOp matched)) (GetReduceOp matched) =
             Inr (reduce_dims, non_reduce_dims) \<longrightarrow>
           ReduceTreeGrownCanMerge env upstream downstream =
             Inr (\<forall>d \<in> set reduce_dims.
                    \<forall>u \<in> set (GetValueUsage env
                                 (op_result env (GetReduceOp (GetRootPattern upstream_tree)) 0)
                                 (GetUsageIdx env
                                    (op_result env (GetReduceOp (GetRootPattern upstream_tree)) 0)
                                    connect)).
                      \<not> IsRelated env u d)) \<and>
        (\<forall>e. FindUserOp env (tree_ops downstream_tree)
               (op_result env (GetReduceOp (GetRootPattern upstream_tree)) 0) = Inl e \<longrightarrow>
             ReduceTreeGrownCanMerge env upstream downstream = Inl e))"
proof (intro conjI allI impI)
  let ?dep = "\<lambda>c. \<exists>val \<in> set (op_results env (GetReduceOp (GetRootPattern upstream_tree))).
                    val \<in> set (GetPatternInputValues env (ReducePattern c))"
  let ?out = "op_result env (GetReduceOp (GetRootPattern upstream_tree)) 0"
  {
    assume "\<forall>c \<in> set (FlattenReducePattern downstream_tree).
        \<forall>val \<in> set (op_results env (GetReduceOp (GetRootPattern upstream_tree))).
          val \<notin> set (GetPatternInputValues env (ReducePattern c))"
    then have "find ?dep (FlattenReducePattern downstream_tree) = None"
      by (auto simp: find_None_iff)
    then show "ReduceTreeGrownCanMerge env upstream downstream = Inr False"
      using assms by (simp add: ReduceTreeGrownCanMerge_def GetDownstreamFromCandidate_eq)
  }
  fix matched
  assume f: "find ?dep (FlattenReducePattern downstream_tree) = Some matched"
  have unfold: "ReduceTreeGrownCanMerge env upstream downstream =
      (case FindUserOp env (tree_ops downstream_tree) ?out of
         Inl e \<Rightarrow> Inl e
       | Inr connect \<Rightarrow>
           (case SplitReduceDims env (GetSignature env (GetReduceOp matched))
                   (GetReduceOp matched) of
              Inl e \<Rightarrow> Inl e
            | Inr (reduce_dims, non_reduce_dims) \<Rightarrow>
                Inr (\<forall>d \<in> set reduce_dims.
                       \<forall>u \<in> set (GetValueUsage env ?out (GetUsageIdx env ?out connect)).
                         \<not> IsRelated env u d)))"
    using assms f
    by (simp add: ReduceTreeGrownCanMerge_def GetDownstreamFromCandidate_eq Let_def
        related_empty_iff split: sum.splits prod.splits)
  show "ReduceTreeGrownCanMerge env upstream downstream = Inr True \<longleftrightarrow>
           (\<exists>connect reduce_dims non_reduce_dims.
              FindUserOp env (tree_ops downstream_tree) ?out = Inr connect \<and>
              SplitReduceDims env (GetSignature env (GetReduceOp matched)) (GetReduceOp matched) =
                Inr (reduce_dims, non_reduce_dims) \<and>
              (\<forall>d \<in> set reduce_dims.
                 \<forall>u \<in> set (GetValueUsage env ?out (GetUsageIdx env ?out connect)).
                   \<not> IsRelated env u d))"
    unfolding unfold by (auto split: sum.splits prod.splits)
  {
    fix connect reduce_dims non_reduce_dims
    assume "FindUserOp env (tree_ops downstream_tree) ?out = Inr connect \<and>
           SplitReduceDims env (GetSignature env (GetReduceOp matched)) (GetReduceOp matched) =
             Inr (reduce_dims, non_reduce_dims)"
    then show "ReduceTreeGrownCanMerge env upstream downstream =
             Inr (\<forall>d \<in> set reduce_dims.
                    \<forall>u \<in> set (GetValueUsage env ?out (GetUsageIdx env ?out connect)).
                      \<not> IsRelated env u d)"
      unfolding unfold by simp
  }
  {
    fix e
    assume "FindUserOp env (tree_ops downstream_tree) ?out = Inl e"
    then show "ReduceTreeGrownCanMerge env upstream downstream = Inl e"
      unfolding unfold by simp
  }
qed

theorem ReduceTreeGrownCanMerge_verdict_witness:
  "stmt_pattern ex_upstream =
     ReduceTreePattern (MakeReduceTreePattern [] (MakeReducePattern [10] 10)) \<and>
   stmt_pattern ex_sibling =
     ReduceTreePattern (MakeReduceTreePattern [] (MakeReducePattern [16] 16)) \<and>
   ReduceTreeGrownCanMerge ex_env ex_upstream ex_sibling = Inr False \<and>
   stmt_pattern ex_grow =
     ReduceTreePattern (MakeReduceTreePattern [] (MakeReducePattern [11, 12] 12)) \<and>
   FindUserOp ex_env (tree_ops (MakeReduceTreePattern [] (MakeReducePattern [11, 12] 12)))
     (op_result ex_env
        (GetReduceOp (GetRootPattern (MakeReduceTreePattern [] (MakeReducePattern [10] 10)))) 0) =
     Inr 11 \<and>
   SplitReduceDims ex_env (GetSignature ex_env (GetReduceOp (MakeReducePattern [11, 12] 12)))
     (GetReduceOp (MakeReducePattern [11, 12] 12)) =
     Inr ([\<lparr>dim_v = 2, dim_idx = 1, dim_usage_idx = 0\<rparr>],
          [\<lparr>dim_v = 2, dim_idx = 0, dim_usage_idx = 0\<rparr>]) \<and>
   ReduceTreeGrownCanMerge ex_env ex_upstream ex_grow = Inr True \<and>
   stmt_pattern ex_rereduce =
     ReduceTreePattern (MakeReduceTreePattern [] (MakeReducePattern [13] 13)) \<and>
   ReduceTreeGrownCanMerge ex_env ex_upstream ex_rereduce = Inr False \<and>
   stmt_pattern ex_square =
     ReduceTreePattern (MakeReduceTreePattern [] (MakeReducePattern [17, 18] 18)) \<and>
   ReduceTreeGrownCanMerge ex_env ex_upstream ex_square = Inl (InvalidArgument 2)"
proof -
  let ?ut = "MakeReduceTreePattern [] (MakeReducePattern [10] 10)"
  let ?out = "op_result ex_env (GetReduceOp (GetRootPattern ?ut)) 0"
  let ?dep = "\<lambda>c. \<exists>val \<in> set (op_results ex_env (GetReduceOp (GetRootPattern ?ut))).
                    val \<in> set (GetPatternInputValues ex_env (ReducePattern c))"
  have u: "stmt_pattern ex_upstream = ReduceTreePattern ?ut"
    by (simp add: ex_upstream_def)

  let ?st = "MakeReduceTreePattern [] (MakeReducePattern [16] 16)"
  have s: "stmt_pattern ex_sibling = ReduceTreePattern ?st"
    by (simp add: ex_sibling_def)
  have s1: "\<forall>c \<in> set (FlattenReducePattern ?st).
        \<forall>val \<in> set (op_results ex_env (GetReduceOp (GetRootPattern ?ut))).
          val \<notin> set (GetPatternInputValues ex_env (ReducePattern c))"
    by code_simp
  note rs = ReduceTreeGrownCanMerge_verdict [OF u s, of ex_env, THEN conjunct1, THEN mp, OF s1]

  let ?gm = "MakeReducePattern [11, 12] 12"
  let ?gt = "MakeReduceTreePattern [] ?gm"
  have g: "stmt_pattern ex_grow = ReduceTreePattern ?gt"
    by (simp add: ex_grow_def)
  have g1: "find ?dep (FlattenReducePattern ?gt) = Some ?gm"
    by code_simp
  have g2: "FindUserOp ex_env (tree_ops ?gt) ?out = Inr 11"
    by code_simp
  have g3: "SplitReduceDims ex_env (GetSignature ex_env (GetReduceOp ?gm)) (GetReduceOp ?gm) =
     Inr ([\<lparr>dim_v = 2, dim_idx = 1, dim_usage_idx = 0\<rparr>],
          [\<lparr>dim_v = 2, dim_idx = 0, dim_usage_idx = 0\<rparr>])"
    by code_simp
  have g4: "(\<forall>d \<in> set [\<lparr>dim_v = 2, dim_idx = 1, dim_usage_idx = 0\<rparr>].
               \<forall>u \<in> set (GetValueUsage ex_env ?out (GetUsageIdx ex_env ?out 11)).
                 \<not> IsRelated ex_env u d) = True"
    by code_simp
  note gv = ReduceTreeGrownCanMerge_verdict
    [OF u g, of ex_env, THEN conjunct2, rule_format, OF g1,
      THEN conjunct2, THEN conjunct1, rule_format, OF conjI [OF g2 g3]]
  have rg: "ReduceTreeGrownCanMerge ex_env ex_upstream ex_grow = Inr True"
    using gv by (simp only: g4)

  let ?rm = "MakeReducePattern [13] 13"
  let ?rt = "MakeReduceTreePattern [] ?rm"
  have r: "stmt_pattern ex_rereduce = ReduceTreePattern ?rt"
    by (simp add: ex_rereduce_def)
  have r1: "find ?dep (FlattenReducePattern ?rt) = Some ?rm"
    by code_simp
  have r2: "FindUserOp ex_env (tree_ops ?rt) ?out = Inr 13"
    by code_simp
  have r3: "SplitReduceDims ex_env (GetSignature ex_env (GetReduceOp ?rm)) (GetReduceOp ?rm) =
     Inr ([\<lparr>dim_v = 1, dim_idx = 0, dim_usage_idx = 1\<rparr>], [])"
    by code_simp
  have r4: "(\<forall>d \<in> set [\<lparr>dim_v = 1, dim_idx = 0, dim_usage_idx = 1\<rparr>].
               \<forall>u \<in> set (GetValueUsage ex_env ?out (GetUsageIdx ex_env ?out 13)).
                 \<not> IsRelated ex_env u d) = False"
    by code_simp
  note rv = ReduceTreeGrownCanMerge_verdict
    [OF u r, of ex_env, THEN conjunct2, rule_format, OF r1,
      THEN conjunct2, THEN conjunct1, rule_format, OF conjI [OF r2 r3]]
  have rr: "ReduceTreeGrownCanMerge ex_env ex_upstream ex_rereduce = Inr False"
    using rv by (simp only: r4)

  let ?qm = "MakeReducePattern [17, 18] 18"
  let ?qt = "MakeReduceTreePattern [] ?qm"
  have q: "stmt_pattern ex_square = ReduceTreePattern ?qt"
    by (simp add: ex_square_def)
  have q1: "find ?dep (FlattenReducePattern ?qt) = Some ?qm"
    by code_simp
  have q2: "FindUserOp ex_env (tree_ops ?qt) ?out = Inl (InvalidArgument 2)"
    by code_simp
  note rq = ReduceTreeGrownCanMerge_verdict
    [OF u q, of ex_env, THEN conjunct2, rule_format, OF q1,
      THEN conjunct2, THEN conjunct2, rule_format, OF q2]

  show ?thesis
    by (intro conjI u s rs g g2 g3 rg r rr q rq)
qed

text \<open>
  Claim C2. For a pair the dispatcher sends to the reduce-plus-trivial rule (upstream a
  \<^verbatim>\<open>ReduceTreePattern\<close>, downstream a \<^verbatim>\<open>TrivialPattern\<close>) whose upstream sink signature splits
  into reduced and preserved dimensions, \<^verbatim>\<open>GetFakeReduceIterIdx\<close> returns a list \<open>fakes\<close> and
  \<^verbatim>\<open>ReducePlusTrivialCanMerge\<close> returns the disjunction of (a) \<^verbatim>\<open>ElementwiseEqual\<close> between
  the downstream output's dimension usages that are not related to a preserved dimension
  and the reduced dimensions, which is equality of the two multisets of symbolic sizes, and
  (b) \<^verbatim>\<open>IsProductSmallerOrEqual\<close> between the downstream output's usages with the positions
  \<open>fakes\<close> removed and the preserved dimensions. So (a) alone gives true.
\<close>

theorem ReducePlusTrivialCanMerge_verdict:
  assumes "holds_ReduceTreePattern (stmt_pattern upstream)"
    and "holds_TrivialPattern (stmt_pattern downstream)"
    and "SplitReduceDims env (GetSignature env (sink_op upstream)) (sink_op upstream) =
           Inr (upstream_reduce_dims, upstream_non_reduce_dims)"
    and "non_related_dims =
           filter (\<lambda>t. \<not> (\<exists>r \<in> set upstream_non_reduce_dims. IsRelated env r t))
             (GetValueUsage env (op_result env (sink_op downstream) 0) 0)"
  shows
    "\<exists>fakes.
       GetFakeReduceIterIdx env upstream downstream = Inr fakes \<and>
       ReducePlusTrivialCanMerge env upstream downstream =
         Inr (ElementwiseEqual env non_related_dims upstream_reduce_dims \<or>
              IsProductSmallerOrEqual env
                (GatherVectorExcept (GetValueUsage env (op_result env (sink_op downstream) 0) 0)
                   fakes)
                upstream_non_reduce_dims) \<and>
       (ElementwiseEqual env non_related_dims upstream_reduce_dims \<longleftrightarrow>
          mset (map (GetSymbolicDim env) non_related_dims) =
          mset (map (GetSymbolicDim env) upstream_reduce_dims)) \<and>
       (ElementwiseEqual env non_related_dims upstream_reduce_dims \<longrightarrow>
          ReducePlusTrivialCanMerge env upstream downstream = Inr True)"
proof -
  obtain fakes where fk: "GetFakeReduceIterIdx env upstream downstream = Inr fakes"
    using assms(1,3) by (auto simp: GetFakeReduceIterIdx_def Let_def)
  have v: "ReducePlusTrivialCanMerge env upstream downstream =
         Inr (ElementwiseEqual env non_related_dims upstream_reduce_dims \<or>
              IsProductSmallerOrEqual env
                (GatherVectorExcept (GetValueUsage env (op_result env (sink_op downstream) 0) 0)
                   fakes)
                upstream_non_reduce_dims)"
    using assms(3,4) fk
    by (simp add: ReducePlusTrivialCanMerge_def Let_def SplitFirstIfRelatedBySecond_eq)
  show ?thesis
    using fk v by (intro exI [of _ fakes]) (simp add: ElementwiseEqual_mset)
qed

theorem ReducePlusTrivialCanMerge_verdict_witness:
  "holds_ReduceTreePattern (stmt_pattern ex_upstream) \<and>
   holds_TrivialPattern (stmt_pattern ex_trivial_dyn) \<and>
   SplitReduceDims ex_env (GetSignature ex_env (sink_op ex_upstream)) (sink_op ex_upstream) =
     Inr ([\<lparr>dim_v = 0, dim_idx = 1, dim_usage_idx = 0\<rparr>],
          [\<lparr>dim_v = 0, dim_idx = 0, dim_usage_idx = 0\<rparr>]) \<and>
   filter (\<lambda>t. \<not> (\<exists>r \<in> set [\<lparr>dim_v = 0, dim_idx = 0, dim_usage_idx = 0\<rparr>]. IsRelated ex_env r t))
     (GetValueUsage ex_env (op_result ex_env (sink_op ex_trivial_dyn) 0) 0) =
     [\<lparr>dim_v = 6, dim_idx = 1, dim_usage_idx = 0\<rparr>] \<and>
   GetFakeReduceIterIdx ex_env ex_upstream ex_trivial_dyn = Inr [1] \<and>
   ElementwiseEqual ex_env [\<lparr>dim_v = 6, dim_idx = 1, dim_usage_idx = 0\<rparr>]
     [\<lparr>dim_v = 0, dim_idx = 1, dim_usage_idx = 0\<rparr>] = True \<and>
   IsProductSmallerOrEqual ex_env
     (GatherVectorExcept (GetValueUsage ex_env (op_result ex_env (sink_op ex_trivial_dyn) 0) 0) [1])
     [\<lparr>dim_v = 0, dim_idx = 0, dim_usage_idx = 0\<rparr>] = False \<and>
   ReducePlusTrivialCanMerge ex_env ex_upstream ex_trivial_dyn = Inr True"
proof -
  have u: "holds_ReduceTreePattern (stmt_pattern ex_upstream)"
    by (simp add: ex_upstream_def)
  have d: "holds_TrivialPattern (stmt_pattern ex_trivial_dyn)"
    by (simp add: ex_trivial_dyn_def)
  have s: "SplitReduceDims ex_env (GetSignature ex_env (sink_op ex_upstream)) (sink_op ex_upstream) =
     Inr ([\<lparr>dim_v = 0, dim_idx = 1, dim_usage_idx = 0\<rparr>],
          [\<lparr>dim_v = 0, dim_idx = 0, dim_usage_idx = 0\<rparr>])"
    by code_simp
  have n: "[\<lparr>dim_v = 6, dim_idx = 1, dim_usage_idx = 0\<rparr>] =
     filter (\<lambda>t. \<not> (\<exists>r \<in> set [\<lparr>dim_v = 0, dim_idx = 0, dim_usage_idx = 0\<rparr>]. IsRelated ex_env r t))
       (GetValueUsage ex_env (op_result ex_env (sink_op ex_trivial_dyn) 0) 0)"
    by code_simp
  have f: "GetFakeReduceIterIdx ex_env ex_upstream ex_trivial_dyn = Inr [1]"
    by code_simp
  have a: "ElementwiseEqual ex_env [\<lparr>dim_v = 6, dim_idx = 1, dim_usage_idx = 0\<rparr>]
     [\<lparr>dim_v = 0, dim_idx = 1, dim_usage_idx = 0\<rparr>] = True"
    by code_simp
  have b: "IsProductSmallerOrEqual ex_env
     (GatherVectorExcept (GetValueUsage ex_env (op_result ex_env (sink_op ex_trivial_dyn) 0) 0) [1])
     [\<lparr>dim_v = 0, dim_idx = 0, dim_usage_idx = 0\<rparr>] = False"
    by code_simp
  from ReducePlusTrivialCanMerge_verdict [OF u d s n] a
  have r: "ReducePlusTrivialCanMerge ex_env ex_upstream ex_trivial_dyn = Inr True"
    by blast
  from u d s n [symmetric] f a b r show ?thesis by blast
qed

text \<open>
  Claim C3. \<^verbatim>\<open>CanFuse\<close> is \<^verbatim>\<open>ReducePlusTrivialCanMerge\<close> when the upstream pattern is a
  \<^verbatim>\<open>ReduceTreePattern\<close> and the downstream one a \<^verbatim>\<open>TrivialPattern\<close>, it is
  \<^verbatim>\<open>ReduceTreeGrownCanMerge\<close> when both are \<^verbatim>\<open>ReduceTreePattern\<close>s, and it returns true for
  every other combination.
\<close>

theorem CanFuse_dispatch:
  "(holds_ReduceTreePattern (stmt_pattern upstream) \<and>
    holds_TrivialPattern (stmt_pattern downstream) \<longrightarrow>
      CanFuse env upstream downstream = ReducePlusTrivialCanMerge env upstream downstream) \<and>
   (holds_ReduceTreePattern (stmt_pattern upstream) \<and>
    holds_ReduceTreePattern (stmt_pattern downstream) \<longrightarrow>
      CanFuse env upstream downstream = ReduceTreeGrownCanMerge env upstream downstream) \<and>
   (\<not> (holds_ReduceTreePattern (stmt_pattern upstream) \<and>
       holds_TrivialPattern (stmt_pattern downstream)) \<and>
    \<not> (holds_ReduceTreePattern (stmt_pattern upstream) \<and>
       holds_ReduceTreePattern (stmt_pattern downstream)) \<longrightarrow>
      CanFuse env upstream downstream = Inr True)"
  by (cases "stmt_pattern downstream") (auto simp: CanFuse_def)

theorem CanFuse_dispatch_witness:
  "holds_ReduceTreePattern (stmt_pattern ex_upstream) \<and>
   holds_TrivialPattern (stmt_pattern ex_trivial) \<and>
   CanFuse ex_env ex_upstream ex_trivial = ReducePlusTrivialCanMerge ex_env ex_upstream ex_trivial \<and>
   holds_ReduceTreePattern (stmt_pattern ex_rereduce) \<and>
   CanFuse ex_env ex_upstream ex_rereduce = ReduceTreeGrownCanMerge ex_env ex_upstream ex_rereduce \<and>
   \<not> holds_ReduceTreePattern (stmt_pattern ex_reduce) \<and>
   CanFuse ex_env ex_reduce ex_rereduce = Inr True \<and>
   CanFuse ex_env ex_upstream ex_reduce = Inr True"
proof -
  have u: "holds_ReduceTreePattern (stmt_pattern ex_upstream)"
    by (simp add: ex_upstream_def)
  have t: "holds_TrivialPattern (stmt_pattern ex_trivial)"
    by (simp add: ex_trivial_def)
  have r: "holds_ReduceTreePattern (stmt_pattern ex_rereduce)"
    by (simp add: ex_rereduce_def)
  have n: "\<not> holds_ReduceTreePattern (stmt_pattern ex_reduce)"
    "\<not> holds_TrivialPattern (stmt_pattern ex_reduce)"
    by (simp_all add: ex_reduce_def)
  show ?thesis
    using u t r n
      CanFuse_dispatch [of ex_upstream ex_trivial ex_env]
      CanFuse_dispatch [of ex_upstream ex_rereduce ex_env]
      CanFuse_dispatch [of ex_reduce ex_rereduce ex_env]
      CanFuse_dispatch [of ex_upstream ex_reduce ex_env]
    by blast
qed

text \<open>
  Claim C4. \<^verbatim>\<open>IsProductSmallerOrEqual(first, second)\<close> is true when \<open>first\<close> is empty,
  whatever \<open>second\<close> is. When \<open>first\<close> is not empty and both products
  (\<^verbatim>\<open>GetProductDimExprForValueDims\<close>) are \<^verbatim>\<open>int64_t\<close> constants \<open>p\<close> and \<open>q\<close>, it is the
  signed comparison \<open>p \<le> q\<close>, equality included. In every other case with \<open>first\<close> not
  empty it is the oracle's \<^verbatim>\<open>IsEqual\<close> of the two products. The product of no dimension
  is the constant 0 of the source, so an empty \<open>second\<close> enters the comparison as 0.
\<close>

theorem IsProductSmallerOrEqual_cases:
  "IsProductSmallerOrEqual env [] second = True \<and>
   GetProductDimExprForValueDims env [] = Int64 0 \<and>
   (first \<noteq> [] \<and>
    GetProductDimExprForValueDims env first = Int64 p \<and>
    GetProductDimExprForValueDims env second = Int64 q \<longrightarrow>
      IsProductSmallerOrEqual env first second = (sint p \<le> sint q)) \<and>
   (first \<noteq> [] \<and>
    \<not> (\<exists>p q. GetProductDimExprForValueDims env first = Int64 p \<and>
              GetProductDimExprForValueDims env second = Int64 q) \<longrightarrow>
      IsProductSmallerOrEqual env first second =
        IsEqual env (GetProductDimExprForValueDims env first)
          (GetProductDimExprForValueDims env second))"
  by (auto simp: IsProductSmallerOrEqual_def GetProductDimExprForValueDims_def Let_def
      split: DimExpr.splits)

theorem IsProductSmallerOrEqual_cases_witness:
  "IsProductSmallerOrEqual ex_env [] (GetValueUsage ex_env 2 0) = True \<and>
   GetProductDimExprForValueDims ex_env [] = Int64 0 \<and>
   GetProductDimExprForValueDims ex_env [\<lparr>dim_v = 0, dim_idx = 1, dim_usage_idx = 0\<rparr>] = Int64 8 \<and>
   GetProductDimExprForValueDims ex_env [\<lparr>dim_v = 2, dim_idx = 1, dim_usage_idx = 0\<rparr>] = Int64 2 \<and>
   IsProductSmallerOrEqual ex_env [\<lparr>dim_v = 0, dim_idx = 1, dim_usage_idx = 0\<rparr>]
     [\<lparr>dim_v = 2, dim_idx = 1, dim_usage_idx = 0\<rparr>] = False \<and>
   GetProductDimExprForValueDims ex_env (GetValueUsage ex_env 0 0) = Int64 32 \<and>
   GetProductDimExprForValueDims ex_env (GetValueUsage ex_env 5 0) = Int64 32 \<and>
   IsProductSmallerOrEqual ex_env (GetValueUsage ex_env 0 0) (GetValueUsage ex_env 5 0) = True \<and>
   GetProductDimExprForValueDims ex_env [\<lparr>dim_v = 6, dim_idx = 0, dim_usage_idx = 0\<rparr>] =
     Symbolic ''S1'' \<and>
   IsProductSmallerOrEqual ex_env [\<lparr>dim_v = 6, dim_idx = 0, dim_usage_idx = 0\<rparr>]
     [\<lparr>dim_v = 0, dim_idx = 0, dim_usage_idx = 0\<rparr>] = False"
proof -
  let ?d8 = "[\<lparr>dim_v = 0, dim_idx = 1, dim_usage_idx = 0\<rparr>]"
  let ?d2 = "[\<lparr>dim_v = 2, dim_idx = 1, dim_usage_idx = 0\<rparr>]"
  let ?s1 = "[\<lparr>dim_v = 6, dim_idx = 0, dim_usage_idx = 0\<rparr>]"
  let ?d4 = "[\<lparr>dim_v = 0, dim_idx = 0, dim_usage_idx = 0\<rparr>]"
  have p8: "GetProductDimExprForValueDims ex_env ?d8 = Int64 8" by code_simp
  have p2: "GetProductDimExprForValueDims ex_env ?d2 = Int64 2" by code_simp
  have pa: "GetProductDimExprForValueDims ex_env (GetValueUsage ex_env 0 0) = Int64 32"
    by code_simp
  have py: "GetProductDimExprForValueDims ex_env (GetValueUsage ex_env 5 0) = Int64 32"
    by code_simp
  have ps: "GetProductDimExprForValueDims ex_env ?s1 = Symbolic ''S1''" by code_simp
  have p4: "GetProductDimExprForValueDims ex_env ?d4 = Int64 4" by code_simp
  have na: "GetValueUsage ex_env 0 0 \<noteq> []" by code_simp
  have e: "IsEqual ex_env (Symbolic ''S1'') (Int64 4) = False" by code_simp
  have c1: "IsProductSmallerOrEqual ex_env [] (GetValueUsage ex_env 2 0) = True"
    using IsProductSmallerOrEqual_cases [of ex_env "GetValueUsage ex_env 2 0"] by blast
  have c0: "GetProductDimExprForValueDims ex_env [] = Int64 0"
    using IsProductSmallerOrEqual_cases [of ex_env "GetValueUsage ex_env 2 0"] by blast
  have c2: "IsProductSmallerOrEqual ex_env ?d8 ?d2 = (sint (8 :: 64 word) \<le> sint (2 :: 64 word))"
    using IsProductSmallerOrEqual_cases [of ex_env ?d2 ?d8 8 2] p8 p2 by blast
  have c3: "IsProductSmallerOrEqual ex_env (GetValueUsage ex_env 0 0) (GetValueUsage ex_env 5 0) =
      (sint (32 :: 64 word) \<le> sint (32 :: 64 word))"
    using IsProductSmallerOrEqual_cases
      [of ex_env "GetValueUsage ex_env 5 0" "GetValueUsage ex_env 0 0" 32 32] pa py na
    by blast
  have c4: "IsProductSmallerOrEqual ex_env ?s1 ?d4 =
      IsEqual ex_env (GetProductDimExprForValueDims ex_env ?s1)
        (GetProductDimExprForValueDims ex_env ?d4)"
    using IsProductSmallerOrEqual_cases [of ex_env ?d4 ?s1] ps by auto
  show ?thesis
    using c0 c1 c2 c3 c4 p8 p2 pa py ps p4 e by simp
qed

text \<open>
  Claim C5. When the signature has a first input entry \<open>in0\<close> and a first output entry
  \<open>out0\<close>, \<^verbatim>\<open>SplitReduceDims\<close> returns, in this order, the usages of the positions \<open>i\<close> of
  \<open>in0\<close> whose axis name is absent from the names of \<open>out0\<close> (the reduced dimensions) and
  the usages of the positions whose name is among them (the preserved dimensions), each
  usage built from operand 0 of the operation, the position, and the usage index of that
  operand at the operation.
\<close>

theorem SplitReduceDims_classification:
  assumes "inputs signature = in0 # ins" and "outputs signature = out0 # outs"
  shows "SplitReduceDims env signature op =
     Inr (map (\<lambda>i. \<lparr>dim_v = operand_source env op 0, dim_idx = i,
                 dim_usage_idx = GetUsageIdx env (operand_source env op 0) op\<rparr>)
            (filter (\<lambda>i. axis_names in0 ! i \<notin> set (axis_names out0))
               [0..<length (axis_names in0)]),
          map (\<lambda>i. \<lparr>dim_v = operand_source env op 0, dim_idx = i,
                 dim_usage_idx = GetUsageIdx env (operand_source env op 0) op\<rparr>)
            (filter (\<lambda>i. axis_names in0 ! i \<in> set (axis_names out0))
               [0..<length (axis_names in0)]))"
  using SplitReduceDims_index [OF assms] by simp

theorem SplitReduceDims_classification_witness:
  "inputs (ex_signature 10) = [\<lparr>axis_names = [''i'', ''j'']\<rparr>] \<and>
   outputs (ex_signature 10) = [\<lparr>axis_names = [''i'']\<rparr>] \<and>
   SplitReduceDims ex_env (ex_signature 10) 10 =
     Inr ([\<lparr>dim_v = 0, dim_idx = 1, dim_usage_idx = 0\<rparr>],
          [\<lparr>dim_v = 0, dim_idx = 0, dim_usage_idx = 0\<rparr>])"
proof -
  have i: "inputs (ex_signature 10) = [\<lparr>axis_names = [''i'', ''j'']\<rparr>]"
    by (simp add: ex_signature_def)
  have o: "outputs (ex_signature 10) = [\<lparr>axis_names = [''i'']\<rparr>]"
    by (simp add: ex_signature_def)
  have "SplitReduceDims ex_env (ex_signature 10) 10 =
     Inr ([\<lparr>dim_v = 0, dim_idx = 1, dim_usage_idx = 0\<rparr>],
          [\<lparr>dim_v = 0, dim_idx = 0, dim_usage_idx = 0\<rparr>])"
    using SplitReduceDims_classification [OF i o, of ex_env 10]
    by code_simp
  with i o show ?thesis by simp
qed

text \<open>
  Claim C6. Both splits are order-preserving partitions of their input. For
  \<^verbatim>\<open>SplitReduceDims\<close> (with a first input and output entry in the signature) the input is
  the list of usages of all positions of the first input's axis names; for
  \<^verbatim>\<open>SplitFirstIfRelatedBySecond\<close> it is \<open>targets\<close>. The two output lists have no element in
  common, together they hold the elements of the input with the same multiplicities, and
  each is a subsequence of the input.
\<close>

theorem split_partition:
  "(inputs signature = in0 # ins \<and> outputs signature = out0 # outs \<longrightarrow>
      (\<exists>reduce_dims non_reduce_dims.
         SplitReduceDims env signature op = Inr (reduce_dims, non_reduce_dims) \<and>
         set reduce_dims \<inter> set non_reduce_dims = {} \<and>
         mset (reduce_dims @ non_reduce_dims) =
           mset (map (\<lambda>i. \<lparr>dim_v = operand_source env op 0, dim_idx = i,
                    dim_usage_idx = GetUsageIdx env (operand_source env op 0) op\<rparr>)
                  [0..<length (axis_names in0)]) \<and>
         subseq reduce_dims
           (map (\<lambda>i. \<lparr>dim_v = operand_source env op 0, dim_idx = i,
                    dim_usage_idx = GetUsageIdx env (operand_source env op 0) op\<rparr>)
                  [0..<length (axis_names in0)]) \<and>
         subseq non_reduce_dims
           (map (\<lambda>i. \<lparr>dim_v = operand_source env op 0, dim_idx = i,
                    dim_usage_idx = GetUsageIdx env (operand_source env op 0) op\<rparr>)
                  [0..<length (axis_names in0)]))) \<and>
   (\<exists>related_dims non_related_dims.
      SplitFirstIfRelatedBySecond env targets related_with = (related_dims, non_related_dims) \<and>
      set related_dims \<inter> set non_related_dims = {} \<and>
      mset (related_dims @ non_related_dims) = mset targets \<and>
      subseq related_dims targets \<and> subseq non_related_dims targets)"
proof (intro conjI impI)
  assume a: "inputs signature = in0 # ins \<and> outputs signature = out0 # outs"
  let ?mk = "\<lambda>i. \<lparr>dim_v = operand_source env op 0, dim_idx = i,
                    dim_usage_idx = GetUsageIdx env (operand_source env op 0) op\<rparr>"
  let ?P = "\<lambda>i. axis_names in0 ! i \<notin> set (axis_names out0)"
  let ?xs = "[0..<length (axis_names in0)]"
  have d: "distinct (map ?mk ?xs)" by (rule DimUsage_index_distinct)
  have e: "SplitReduceDims env signature op =
      Inr (map ?mk (filter ?P ?xs), map ?mk (filter (\<lambda>i. \<not> ?P i) ?xs))"
    using a by (simp add: SplitReduceDims_index)
  show "\<exists>reduce_dims non_reduce_dims.
         SplitReduceDims env signature op = Inr (reduce_dims, non_reduce_dims) \<and>
         set reduce_dims \<inter> set non_reduce_dims = {} \<and>
         mset (reduce_dims @ non_reduce_dims) = mset (map ?mk ?xs) \<and>
         subseq reduce_dims (map ?mk ?xs) \<and>
         subseq non_reduce_dims (map ?mk ?xs)"
    using e partition_props [OF d, of ?P] by (intro exI conjI) (assumption, simp_all)
next
  have d: "set (filter (\<lambda>t. \<exists>d \<in> set related_with. IsRelated env d t) targets) \<inter>
        set (filter (\<lambda>t. \<not> (\<exists>d \<in> set related_with. IsRelated env d t)) targets) = {}"
    by auto
  have m: "mset (filter (\<lambda>t. \<exists>d \<in> set related_with. IsRelated env d t) targets @
               filter (\<lambda>t. \<not> (\<exists>d \<in> set related_with. IsRelated env d t)) targets) = mset targets"
    by simp
  show "\<exists>related_dims non_related_dims.
      SplitFirstIfRelatedBySecond env targets related_with = (related_dims, non_related_dims) \<and>
      set related_dims \<inter> set non_related_dims = {} \<and>
      mset (related_dims @ non_related_dims) = mset targets \<and>
      subseq related_dims targets \<and> subseq non_related_dims targets"
    using d m by (intro exI conjI) (rule SplitFirstIfRelatedBySecond_eq, simp_all)
qed

theorem split_partition_witness:
  "inputs (ex_signature 10) = [\<lparr>axis_names = [''i'', ''j'']\<rparr>] \<and>
   outputs (ex_signature 10) = [\<lparr>axis_names = [''i'']\<rparr>] \<and>
   SplitReduceDims ex_env (ex_signature 10) 10 =
     Inr ([\<lparr>dim_v = 0, dim_idx = 1, dim_usage_idx = 0\<rparr>],
          [\<lparr>dim_v = 0, dim_idx = 0, dim_usage_idx = 0\<rparr>]) \<and>
   subseq [\<lparr>dim_v = 0, dim_idx = 1, dim_usage_idx = 0\<rparr>]
     [\<lparr>dim_v = 0, dim_idx = 0, dim_usage_idx = 0\<rparr>,
      \<lparr>dim_v = 0, dim_idx = 1, dim_usage_idx = 0\<rparr>] \<and>
   SplitFirstIfRelatedBySecond ex_env (GetValueUsage ex_env 5 0)
     [\<lparr>dim_v = 0, dim_idx = 0, dim_usage_idx = 0\<rparr>] =
     ([\<lparr>dim_v = 5, dim_idx = 0, dim_usage_idx = 0\<rparr>],
      [\<lparr>dim_v = 5, dim_idx = 1, dim_usage_idx = 0\<rparr>]) \<and>
   mset ([\<lparr>dim_v = 5, dim_idx = 0, dim_usage_idx = 0\<rparr>] @
         [\<lparr>dim_v = 5, dim_idx = 1, dim_usage_idx = 0\<rparr>]) = mset (GetValueUsage ex_env 5 0) \<and>
   set [\<lparr>dim_v = 5, dim_idx = 0, dim_usage_idx = 0\<rparr>] \<inter>
     set [\<lparr>dim_v = 5, dim_idx = 1, dim_usage_idx = 0\<rparr>] = {}"
proof -
  have i: "inputs (ex_signature 10) = [\<lparr>axis_names = [''i'', ''j'']\<rparr>]"
    by (simp add: ex_signature_def)
  have o: "outputs (ex_signature 10) = [\<lparr>axis_names = [''i'']\<rparr>]"
    by (simp add: ex_signature_def)
  have v1: "SplitReduceDims ex_env (ex_signature 10) 10 =
     Inr ([\<lparr>dim_v = 0, dim_idx = 1, dim_usage_idx = 0\<rparr>],
          [\<lparr>dim_v = 0, dim_idx = 0, dim_usage_idx = 0\<rparr>])"
    by code_simp
  have v2: "SplitFirstIfRelatedBySecond ex_env (GetValueUsage ex_env 5 0)
     [\<lparr>dim_v = 0, dim_idx = 0, dim_usage_idx = 0\<rparr>] =
     ([\<lparr>dim_v = 5, dim_idx = 0, dim_usage_idx = 0\<rparr>],
      [\<lparr>dim_v = 5, dim_idx = 1, dim_usage_idx = 0\<rparr>])"
    by code_simp
  have v3: "map (\<lambda>i. \<lparr>dim_v = operand_source ex_env 10 0, dim_idx = i,
                   dim_usage_idx = GetUsageIdx ex_env (operand_source ex_env 10 0) 10\<rparr>)
              [0..<length (axis_names \<lparr>axis_names = [''i'', ''j'']\<rparr>)] =
            [\<lparr>dim_v = 0, dim_idx = 0, dim_usage_idx = 0\<rparr>,
             \<lparr>dim_v = 0, dim_idx = 1, dim_usage_idx = 0\<rparr>]"
    by code_simp
  note t = split_partition
    [of "ex_signature 10" "\<lparr>axis_names = [''i'', ''j'']\<rparr>" "[]" "\<lparr>axis_names = [''i'']\<rparr>" "[]"
      ex_env 10 "GetValueUsage ex_env 5 0" "[\<lparr>dim_v = 0, dim_idx = 0, dim_usage_idx = 0\<rparr>]"]
  from t i o obtain r n where rn:
    "SplitReduceDims ex_env (ex_signature 10) 10 = Inr (r, n)"
    "subseq r (map (\<lambda>i. \<lparr>dim_v = operand_source ex_env 10 0, dim_idx = i,
                   dim_usage_idx = GetUsageIdx ex_env (operand_source ex_env 10 0) 10\<rparr>)
              [0..<length (axis_names \<lparr>axis_names = [''i'', ''j'']\<rparr>)])"
    by blast
  from rn(1) v1 have "r = [\<lparr>dim_v = 0, dim_idx = 1, dim_usage_idx = 0\<rparr>]" by simp
  with rn(2) have s1: "subseq [\<lparr>dim_v = 0, dim_idx = 1, dim_usage_idx = 0\<rparr>]
     [\<lparr>dim_v = 0, dim_idx = 0, dim_usage_idx = 0\<rparr>,
      \<lparr>dim_v = 0, dim_idx = 1, dim_usage_idx = 0\<rparr>]"
    by (simp only: v3)
  from t obtain rel non where q:
    "SplitFirstIfRelatedBySecond ex_env (GetValueUsage ex_env 5 0)
       [\<lparr>dim_v = 0, dim_idx = 0, dim_usage_idx = 0\<rparr>] = (rel, non)"
    "set rel \<inter> set non = {}"
    "mset (rel @ non) = mset (GetValueUsage ex_env 5 0)"
    by blast
  from q(1) v2 have e: "rel = [\<lparr>dim_v = 5, dim_idx = 0, dim_usage_idx = 0\<rparr>]"
    "non = [\<lparr>dim_v = 5, dim_idx = 1, dim_usage_idx = 0\<rparr>]"
    by simp_all
  from q(3) have s2: "mset ([\<lparr>dim_v = 5, dim_idx = 0, dim_usage_idx = 0\<rparr>] @
         [\<lparr>dim_v = 5, dim_idx = 1, dim_usage_idx = 0\<rparr>]) = mset (GetValueUsage ex_env 5 0)"
    by (simp only: e)
  from q(2) have s3: "set [\<lparr>dim_v = 5, dim_idx = 0, dim_usage_idx = 0\<rparr>] \<inter>
     set [\<lparr>dim_v = 5, dim_idx = 1, dim_usage_idx = 0\<rparr>] = {}"
    by (simp only: e)
  from i o v1 v2 s1 s2 s3 show ?thesis by blast
qed

text \<open>
  Claim C7. \<^verbatim>\<open>ElementwiseEqual\<close> is symmetric and reflexive, also on the empty list.
\<close>

theorem ElementwiseEqual_symmetric_reflexive:
  "ElementwiseEqual env A B = ElementwiseEqual env B A \<and>
   ElementwiseEqual env A A \<and>
   ElementwiseEqual env [] []"
  by (auto simp: ElementwiseEqual_mset)

theorem ElementwiseEqual_symmetric_reflexive_witness:
  "ElementwiseEqual ex_env (GetValueUsage ex_env 0 0) (GetValueUsage ex_env 2 0) = False \<and>
   ElementwiseEqual ex_env (GetValueUsage ex_env 2 0) (GetValueUsage ex_env 0 0) = False \<and>
   ElementwiseEqual ex_env (GetValueUsage ex_env 0 0) (GetValueUsage ex_env 0 0) = True \<and>
   ElementwiseEqual ex_env [] [] = True"
proof -
  note t = ElementwiseEqual_symmetric_reflexive
    [of ex_env "GetValueUsage ex_env 0 0" "GetValueUsage ex_env 2 0"]
  have "ElementwiseEqual ex_env (GetValueUsage ex_env 2 0) (GetValueUsage ex_env 0 0) = False"
    by code_simp
  with t show ?thesis by simp
qed

text \<open>
  Claim C8. \<^verbatim>\<open>FindUserOp\<close> returns an operation \<open>r\<close> exactly when the use edges of the
  value whose owner lies in \<open>candidates\<close> are the single edge owned by \<open>r\<close>. When the number
  of these edges is not one it raises the \<^verbatim>\<open>InvalidArgument\<close> error carrying that number,
  and so it does when the number of distinct consuming operations inside \<open>candidates\<close> is
  zero or more than one.
\<close>

theorem FindUserOp_exactly_one:
  "(FindUserOp env candidates val = Inr r \<longleftrightarrow>
      filter (\<lambda>user_op. user_op \<in> set candidates) (use_owners env val) = [r]) \<and>
   (length (filter (\<lambda>user_op. user_op \<in> set candidates) (use_owners env val)) \<noteq> 1 \<longrightarrow>
      FindUserOp env candidates val =
        Inl (InvalidArgument
               (length (filter (\<lambda>user_op. user_op \<in> set candidates) (use_owners env val))))) \<and>
   (card (set candidates \<inter> set (use_owners env val)) \<noteq> 1 \<longrightarrow>
      FindUserOp env candidates val =
        Inl (InvalidArgument
               (length (filter (\<lambda>user_op. user_op \<in> set candidates) (use_owners env val)))))"
proof (intro conjI impI)
  let ?rs = "filter (\<lambda>user_op. user_op \<in> set candidates) (use_owners env val)"
  show "FindUserOp env candidates val = Inr r \<longleftrightarrow> ?rs = [r]"
    by (auto simp: FindUserOp_eq split: list.splits)
  show "FindUserOp env candidates val = Inl (InvalidArgument (length ?rs))"
    if "length ?rs \<noteq> 1"
    using that by (cases ?rs) (auto simp: FindUserOp_eq split: list.splits)
  show "FindUserOp env candidates val = Inl (InvalidArgument (length ?rs))"
    if c: "card (set candidates \<inter> set (use_owners env val)) \<noteq> 1"
  proof -
    have s: "set ?rs = set candidates \<inter> set (use_owners env val)" by auto
    have "length ?rs \<noteq> 1"
    proof
      assume "length ?rs = 1"
      then obtain x where "?rs = [x]" by (cases ?rs) auto
      then have "set ?rs = {x}" by simp
      with s c show False by simp
    qed
    then show ?thesis
      by (cases ?rs) (auto simp: FindUserOp_eq split: list.splits)
  qed
qed

theorem FindUserOp_exactly_one_witness:
  "filter (\<lambda>user_op. user_op \<in> set [11, 12]) (use_owners ex_env 1) = [11] \<and>
   FindUserOp ex_env [11, 12] 1 = Inr 11 \<and>
   length (filter (\<lambda>user_op. user_op \<in> set [12]) (use_owners ex_env 1)) = 0 \<and>
   FindUserOp ex_env [12] 1 = Inl (InvalidArgument 0) \<and>
   card (set [11, 13] \<inter> set (use_owners ex_env 1)) = 2 \<and>
   FindUserOp ex_env [11, 13] 1 = Inl (InvalidArgument 2) \<and>
   card (set [17, 18] \<inter> set (use_owners ex_env 1)) = 1 \<and>
   length (filter (\<lambda>user_op. user_op \<in> set [17, 18]) (use_owners ex_env 1)) = 2 \<and>
   FindUserOp ex_env [17, 18] 1 = Inl (InvalidArgument 2)"
proof -
  have f1: "filter (\<lambda>user_op. user_op \<in> set [11, 12]) (use_owners ex_env 1) = [11]"
    by code_simp
  have f2: "length (filter (\<lambda>user_op. user_op \<in> set [12]) (use_owners ex_env 1)) = 0"
    by code_simp
  have f3: "length (filter (\<lambda>user_op. user_op \<in> set [11, 13]) (use_owners ex_env 1)) = 2"
    by code_simp
  have k3: "card (set [11, 13] \<inter> set (use_owners ex_env 1)) = 2"
    by code_simp
  have f4: "length (filter (\<lambda>user_op. user_op \<in> set [17, 18]) (use_owners ex_env 1)) = 2"
    by code_simp
  have k4: "card (set [17, 18] \<inter> set (use_owners ex_env 1)) = 1"
    by code_simp
  have r1: "FindUserOp ex_env [11, 12] 1 = Inr 11"
    using FindUserOp_exactly_one [of ex_env "[11, 12]" 1 11] f1 by blast
  have r2: "FindUserOp ex_env [12] 1 = Inl (InvalidArgument 0)"
    using FindUserOp_exactly_one [of ex_env "[12]" 1] f2 by simp
  have r3: "FindUserOp ex_env [11, 13] 1 = Inl (InvalidArgument 2)"
    using FindUserOp_exactly_one [of ex_env "[11, 13]" 1] k3 f3 by simp
  have r4: "FindUserOp ex_env [17, 18] 1 = Inl (InvalidArgument 2)"
    using FindUserOp_exactly_one [of ex_env "[17, 18]" 1] f4 by simp
  show ?thesis
    using f1 f2 k3 k4 f4 r1 r2 r3 r4 by simp
qed

text \<open>
  Claim C9. \<^verbatim>\<open>GetFakeReduceIterIdx\<close> raises the illegal-call error exactly when the
  upstream pattern is not a \<^verbatim>\<open>ReduceTreePattern\<close> and the downstream pattern is not a
  \<^verbatim>\<open>TrivialPattern\<close>.
\<close>

theorem GetFakeReduceIterIdx_illegal_call:
  "GetFakeReduceIterIdx env upstream downstream = Inl IllegalCall \<longleftrightarrow>
     \<not> holds_ReduceTreePattern (stmt_pattern upstream) \<and>
     \<not> holds_TrivialPattern (stmt_pattern downstream)"
  by (auto simp: GetFakeReduceIterIdx_def Let_def split: sum.splits dest: SplitReduceDims_error)

theorem GetFakeReduceIterIdx_illegal_call_witness:
  "\<not> holds_ReduceTreePattern (stmt_pattern ex_reduce) \<and>
   \<not> holds_TrivialPattern (stmt_pattern ex_grow) \<and>
   GetFakeReduceIterIdx ex_env ex_reduce ex_grow = Inl IllegalCall \<and>
   holds_TrivialPattern (stmt_pattern ex_trivial) \<and>
   GetFakeReduceIterIdx ex_env ex_reduce ex_trivial \<noteq> Inl IllegalCall \<and>
   holds_ReduceTreePattern (stmt_pattern ex_upstream) \<and>
   GetFakeReduceIterIdx ex_env ex_upstream ex_grow \<noteq> Inl IllegalCall"
proof -
  have a: "\<not> holds_ReduceTreePattern (stmt_pattern ex_reduce)"
    by (simp add: ex_reduce_def)
  have b: "\<not> holds_TrivialPattern (stmt_pattern ex_grow)"
    by (simp add: ex_grow_def)
  have c: "holds_TrivialPattern (stmt_pattern ex_trivial)"
    by (simp add: ex_trivial_def)
  have d: "holds_ReduceTreePattern (stmt_pattern ex_upstream)"
    by (simp add: ex_upstream_def)
  show ?thesis
    using a b c d
      GetFakeReduceIterIdx_illegal_call [of ex_env ex_reduce ex_grow]
      GetFakeReduceIterIdx_illegal_call [of ex_env ex_reduce ex_trivial]
      GetFakeReduceIterIdx_illegal_call [of ex_env ex_upstream ex_grow]
    by blast
qed

text \<open>
  Claim C10. Let the precondition of \<^verbatim>\<open>GetFakeReduceIterIdx\<close> hold and the upstream sink
  signature split into reduced and preserved dimensions. The call returns the dimension
  indices of a list \<open>matched\<close> of reordered (non-related) downstream dimensions in which no
  dimension occurs twice, each symbolically equal to some upstream reduced dimension, with
  at most one entry for each upstream reduced dimension; the returned indices are pairwise
  distinct. A reduced dimension for which every reordered dimension is already visited or
  not symbolically equal leaves the loop state as it was.
\<close>

theorem GetFakeReduceIterIdx_matching:
  assumes "holds_ReduceTreePattern (stmt_pattern upstream) \<or>
           holds_TrivialPattern (stmt_pattern downstream)"
    and "SplitReduceDims env (GetSignature env (sink_op upstream)) (sink_op upstream) =
           Inr (upstream_reduce_dims, upstream_non_reduce_dims)"
  shows "(\<exists>matched.
            GetFakeReduceIterIdx env upstream downstream = Inr (map dim_idx matched) \<and>
            distinct matched \<and>
            set matched \<subseteq>
              set (snd (SplitFirstIfRelatedBySecond env
                          (GetValueUsage env (op_result env (sink_op downstream) 0) 0)
                          upstream_non_reduce_dims)) \<and>
            (\<forall>t \<in> set matched. \<exists>r \<in> set upstream_reduce_dims. SymbolicEqualTo env t r) \<and>
            length matched \<le> length upstream_reduce_dims \<and>
            distinct (map dim_idx matched)) \<and>
         ((\<forall>t \<in> set trivial_reorder_dims.
              t \<in> visited_dims \<or> \<not> SymbolicEqualTo env t reduce_dim) \<longrightarrow>
            GetFakeReduceIterIdx_inner env reduce_dim trivial_reorder_dims (visited_dims, res) =
              (visited_dims, res))"
proof (intro conjI impI)
  let ?out = "GetValueUsage env (op_result env (sink_op downstream) 0) 0"
  let ?ts = "snd (SplitFirstIfRelatedBySecond env ?out upstream_non_reduce_dims)"
  obtain m where m:
    "GetFakeReduceIterIdx_outer env ?ts upstream_reduce_dims (set [], map dim_idx []) =
       (set m, map dim_idx m)"
    "distinct m" "set m \<subseteq> set ?ts" "length m \<le> length [] + length upstream_reduce_dims"
    "\<forall>t \<in> set m. \<exists>r \<in> set upstream_reduce_dims. SymbolicEqualTo env t r"
    using GetFakeReduceIterIdx_outer_inv
      [of "[]" ?ts "set upstream_reduce_dims" env upstream_reduce_dims]
    by auto
  have "set ?ts \<subseteq> set ?out"
    by (simp add: SplitFirstIfRelatedBySecond_eq)
  with m(3) have "inj_on dim_idx (set m)"
    using GetValueUsage_inj [of env "op_result env (sink_op downstream) 0" 0]
    by (meson inj_on_subset subset_trans)
  with m(2) have d: "distinct (map dim_idx m)"
    by (simp add: distinct_map)
  have r: "GetFakeReduceIterIdx env upstream downstream = Inr (map dim_idx m)"
    using assms m(1) by (auto simp: GetFakeReduceIterIdx_def Let_def)
  show "\<exists>matched.
            GetFakeReduceIterIdx env upstream downstream = Inr (map dim_idx matched) \<and>
            distinct matched \<and> set matched \<subseteq> set ?ts \<and>
            (\<forall>t \<in> set matched. \<exists>r \<in> set upstream_reduce_dims. SymbolicEqualTo env t r) \<and>
            length matched \<le> length upstream_reduce_dims \<and>
            distinct (map dim_idx matched)"
    using r m d by (intro exI [of _ m]) simp
next
  assume "\<forall>t \<in> set trivial_reorder_dims.
              t \<in> visited_dims \<or> \<not> SymbolicEqualTo env t reduce_dim"
  then show "GetFakeReduceIterIdx_inner env reduce_dim trivial_reorder_dims (visited_dims, res) =
              (visited_dims, res)"
    by (rule GetFakeReduceIterIdx_inner_skip)
qed

theorem GetFakeReduceIterIdx_matching_witness:
  "holds_TrivialPattern (stmt_pattern ex_trivial) \<and>
   SplitReduceDims ex_env (GetSignature ex_env (sink_op ex_upstream)) (sink_op ex_upstream) =
     Inr ([\<lparr>dim_v = 0, dim_idx = 1, dim_usage_idx = 0\<rparr>],
          [\<lparr>dim_v = 0, dim_idx = 0, dim_usage_idx = 0\<rparr>]) \<and>
   GetFakeReduceIterIdx ex_env ex_upstream ex_trivial = Inr [1] \<and>
   (\<exists>matched.
      GetFakeReduceIterIdx ex_env ex_upstream ex_trivial = Inr (map dim_idx matched) \<and>
      distinct matched \<and>
      set matched \<subseteq>
        set (snd (SplitFirstIfRelatedBySecond ex_env
                    (GetValueUsage ex_env (op_result ex_env (sink_op ex_trivial) 0) 0)
                    [\<lparr>dim_v = 0, dim_idx = 0, dim_usage_idx = 0\<rparr>])) \<and>
      (\<forall>t \<in> set matched.
         \<exists>r \<in> set [\<lparr>dim_v = 0, dim_idx = 1, dim_usage_idx = 0\<rparr>]. SymbolicEqualTo ex_env t r) \<and>
      length matched \<le> length [\<lparr>dim_v = 0, dim_idx = 1, dim_usage_idx = 0\<rparr>] \<and>
      distinct (map dim_idx matched)) \<and>
   GetFakeReduceIterIdx_inner ex_env \<lparr>dim_v = 0, dim_idx = 1, dim_usage_idx = 0\<rparr>
     [\<lparr>dim_v = 5, dim_idx = 1, dim_usage_idx = 0\<rparr>]
     ({\<lparr>dim_v = 5, dim_idx = 1, dim_usage_idx = 0\<rparr>}, [1]) =
     ({\<lparr>dim_v = 5, dim_idx = 1, dim_usage_idx = 0\<rparr>}, [1])"
proof -
  have p: "holds_TrivialPattern (stmt_pattern ex_trivial)"
    by (simp add: ex_trivial_def)
  have s: "SplitReduceDims ex_env (GetSignature ex_env (sink_op ex_upstream)) (sink_op ex_upstream) =
     Inr ([\<lparr>dim_v = 0, dim_idx = 1, dim_usage_idx = 0\<rparr>],
          [\<lparr>dim_v = 0, dim_idx = 0, dim_usage_idx = 0\<rparr>])"
    by code_simp
  have v: "GetFakeReduceIterIdx ex_env ex_upstream ex_trivial = Inr [1]"
    by code_simp
  have h: "\<forall>t \<in> set [\<lparr>dim_v = 5, dim_idx = 1, dim_usage_idx = 0\<rparr>].
             t \<in> {\<lparr>dim_v = 5, dim_idx = 1, dim_usage_idx = 0\<rparr>} \<or>
             \<not> SymbolicEqualTo ex_env t \<lparr>dim_v = 0, dim_idx = 1, dim_usage_idx = 0\<rparr>"
    by simp
  note t = GetFakeReduceIterIdx_matching
    [OF disjI2 [OF p] s,
      of "[\<lparr>dim_v = 5, dim_idx = 1, dim_usage_idx = 0\<rparr>]"
         "{\<lparr>dim_v = 5, dim_idx = 1, dim_usage_idx = 0\<rparr>}"
         "\<lparr>dim_v = 0, dim_idx = 1, dim_usage_idx = 0\<rparr>" "[1]"]
  note e = t [THEN conjunct1]
  note k = t [THEN conjunct2, THEN mp, OF h]
  show ?thesis
    by (intro conjI p s v e k)
qed

end
